theory Spec2Isabelle
  imports Complex_Main "HOL-Library.Sublist" "HOL-Library.AList"
begin

chapter \<open>ScamGuard: the scam signal analysis engine\<close>

text \<open>
  The development embeds three parts of the repository: the edge function \<open>analyze-scam\<close>
  (its request validation, its rule-based branch and its AI branch with the recovery from
  malformed output), the rule engine of the client hook \<open>useScamAnalysis\<close>, and the
  scheduler of that hook, which decides when a growing transcript is analyzed again.
\<close>

section \<open>JavaScript strings\<close>

text \<open>
  A transcript is a JavaScript string. It is modelled as a \<^typ>\<open>string\<close> whose characters
  are the UTF-16 code units below 256 (ASCII and Latin-1); every keyword of the scoring
  tables is ASCII. \<open>length\<close> is the \<open>.length\<close> of the source.
\<close>

definition is_space :: "char \<Rightarrow> bool" where
  \<comment> \<open>the white space and line terminators that \<open>String.prototype.trim\<close> strips\<close>
  "is_space c = (c \<in> set [CHR 0x09, CHR 0x0A, CHR 0x0B, CHR 0x0C, CHR 0x0D, CHR '' '', CHR 0xA0])"

definition lower_char :: "char \<Rightarrow> char" where
  \<comment> \<open>A-Z and the Latin-1 capitals (all of 0xC0..0xDE but the multiplication sign)\<close>
  "lower_char c =
     (let n = (of_char c :: nat)
      in if (65 \<le> n \<and> n \<le> 90) \<or> (192 \<le> n \<and> n \<le> 222 \<and> n \<noteq> 215)
         then char_of (n + 32) else c)"

definition toLowerCase :: "string \<Rightarrow> string" where
  "toLowerCase s = map lower_char s"

definition trim :: "string \<Rightarrow> string" where
  "trim s = rev (dropWhile is_space (rev (dropWhile is_space s)))"

fun str_includes :: "string \<Rightarrow> string \<Rightarrow> bool" where
  \<comment> \<open>\<open>text.includes(kw)\<close>: \<open>kw\<close> occurs in \<open>text\<close> as a contiguous substring\<close>
  "str_includes [] kw = (kw = [])"
| "str_includes (c # cs) kw = (prefix kw (c # cs) \<or> str_includes cs kw)"

definition normalize :: "string \<Rightarrow> string" where
  \<comment> \<open>\<open>transcript.toLowerCase().trim()\<close>, the first statement of both scorers\<close>
  "normalize transcript = trim (toLowerCase transcript)"


section \<open>Result model\<close>

datatype RiskLevel = Low | Medium | High

record PatternRule =
  rule_id :: string
  rule_keywords :: "string list"
  weight :: int

record ScamIndicator =
  ind_id :: string
  ind_type :: string
  detected :: bool
  confidence :: real

record AnalysisResult =
  riskLevel :: RiskLevel
  riskScore :: int
  indicators :: "ScamIndicator list"
  guidance :: "string list"

definition indicatorTypes :: "string list" where
  "indicatorTypes =
     [''impersonation'', ''urgency'', ''emotional'', ''authority'', ''otp_request'',
      ''money_request'', ''voice_pattern'']"

definition band :: "int \<Rightarrow> RiskLevel" where
  \<comment> \<open>\<open>riskScore >= 50 ? 'high' : riskScore >= 25 ? 'medium' : 'low'\<close>\<close>
  "band score = (if score \<ge> 50 then High else if score \<ge> 25 then Medium else Low)"

definition some_keyword :: "string \<Rightarrow> string list \<Rightarrow> bool" where
  \<comment> \<open>\<open>keywords.some((kw) => text.includes(kw))\<close>\<close>
  "some_keyword text kws = list_ex (\<lambda>kw. str_includes text kw) kws"


section \<open>The rule-based branch of the edge function\<close>

definition edge_patterns :: "PatternRule list" where
  "edge_patterns =
     [\<lparr>rule_id = ''impersonation'',
        rule_keywords = [''bank'', ''bank se'', ''from bank'', ''rbi'', ''government'', ''police'',
                    ''tax department''],
        weight = 25\<rparr>,
      \<lparr>rule_id = ''otp_request'',
        rule_keywords = [''otp'', ''share otp'', ''otp batao'', ''pin'', ''cvv'', ''password''],
        weight = 30\<rparr>,
      \<lparr>rule_id = ''urgency'',
        rule_keywords = [''immediately'', ''urgent'', ''account blocked'', ''account will be blocked'',
                    ''act now''],
        weight = 25\<rparr>,
      \<lparr>rule_id = ''authority'',
        rule_keywords = [''arrest'', ''police'', ''legal'', ''case'', ''fine''],
        weight = 20\<rparr>,
      \<lparr>rule_id = ''money_request'',
        rule_keywords = [''transfer'', ''upi'', ''gift card'', ''pay''],
        weight = 25\<rparr>]"

definition edge_detected :: "string \<Rightarrow> PatternRule option \<Rightarrow> bool" where
  \<comment> \<open>\<open>pattern ? pattern.keywords.some(...) : false\<close>\<close>
  "edge_detected text pattern =
     (case pattern of Some p \<Rightarrow> some_keyword text (rule_keywords p) | None \<Rightarrow> False)"

fun edge_indicators :: "string \<Rightarrow> string list \<Rightarrow> int \<Rightarrow> ScamIndicator list \<times> int" where
  \<comment> \<open>\<open>indicatorTypes.map(...)\<close>; the callback adds to \<open>riskScore\<close>, threaded through as \<open>score\<close>\<close>
  "edge_indicators text [] score = ([], score)"
| "edge_indicators text (ty # tys) score =
     (let pattern = find (\<lambda>p. rule_id p = ty) edge_patterns;
          det = edge_detected text pattern;
          score' = (case pattern of
                      Some p \<Rightarrow> if det then score + weight p else score
                    | None \<Rightarrow> score);
          (rest, final) = edge_indicators text tys score'
      in (\<lparr>ind_id = ty, ind_type = ty, detected = det,
            confidence = (if det then 0.85 else 0)\<rparr> # rest, final))"

definition edge_guidance :: "RiskLevel \<Rightarrow> string list" where
  "edge_guidance lvl =
     (if lvl = High then [''HIGH RISK - Do not share OTP. End call immediately.'']
      else if lvl = Medium then [''Be cautious. Verify caller identity.'']
      else [''Call appears safe.''])"

definition edge_sum :: "string \<Rightarrow> int" where
  \<comment> \<open>\<open>riskScore\<close> when the \<open>map\<close> has run, before \<open>Math.min(100, riskScore)\<close>\<close>
  "edge_sum text = snd (edge_indicators text indicatorTypes 0)"

definition edge_raw :: "string \<Rightarrow> int" where
  \<comment> \<open>\<open>riskScore = Math.min(100, riskScore)\<close>: the score the level is taken from\<close>
  "edge_raw text = min 100 (edge_sum text)"

definition rule_based_branch :: "string \<Rightarrow> AnalysisResult" where
  "rule_based_branch text =
     (let inds = fst (edge_indicators text indicatorTypes 0);
          score = edge_raw text;
          lvl = band score
      in \<lparr>riskLevel = lvl,
           riskScore = (if lvl = High then max score 75 else score),
           indicators = inds,
           guidance = edge_guidance lvl\<rparr>)"


section \<open>The client-side rule engine\<close>

record ScamPattern =
  sp_id :: string
  sp_type :: string
  sp_label :: string
  sp_description :: string
  sp_severity :: string

definition scamPatterns :: "ScamPattern list" where
  "scamPatterns =
     [\<lparr>sp_id = ''impersonation'', sp_type = ''impersonation'',
        sp_label = ''Caller Impersonation'',
        sp_description = ''Caller claims to be from bank, government, or trusted organization'',
        sp_severity = ''high''\<rparr>,
      \<lparr>sp_id = ''urgency'', sp_type = ''urgency'',
        sp_label = ''Urgency Pressure'',
        sp_description = ''Creating false urgency - \"Act now or face consequences\"'',
        sp_severity = ''high''\<rparr>,
      \<lparr>sp_id = ''emotional'', sp_type = ''emotional'',
        sp_label = ''Emotional Manipulation'',
        sp_description = ''Using fear, excitement, or sympathy to manipulate'',
        sp_severity = ''medium''\<rparr>,
      \<lparr>sp_id = ''authority'', sp_type = ''authority'',
        sp_label = ''Authority Pressure'',
        sp_description = ''Claiming legal authority or threatening arrest'',
        sp_severity = ''high''\<rparr>,
      \<lparr>sp_id = ''otp_request'', sp_type = ''otp_request'',
        sp_label = ''OTP Request'',
        sp_description = ''Asking for OTP, PIN, or password'',
        sp_severity = ''high''\<rparr>,
      \<lparr>sp_id = ''money_request'', sp_type = ''money_request'',
        sp_label = ''Money Request'',
        sp_description = ''Requesting money transfer or gift cards'',
        sp_severity = ''high''\<rparr>,
      \<lparr>sp_id = ''voice_pattern'', sp_type = ''voice_pattern'',
        sp_label = ''Suspicious Voice Pattern'',
        sp_description = ''Unusual stress, pitch changes, or scripted speech'',
        sp_severity = ''medium''\<rparr>]"

text \<open>
  A client indicator is \<open>{...pattern, detected, confidence}\<close>. \<open>c_pattern\<close> is what
  \<open>scamPatterns.find\<close> returned: the spread of \<open>undefined\<close> adds no field, so an indicator
  built from \<open>None\<close> has no \<open>id\<close>.
\<close>

record ClientIndicator =
  c_pattern :: "ScamPattern option"
  c_detected :: bool
  c_confidence :: real

record ClientResult =
  c_riskLevel :: RiskLevel
  c_riskScore :: int
  c_indicators :: "ClientIndicator list"
  c_guidance :: "string list"

definition client_patterns :: "PatternRule list" where
  "client_patterns =
     [\<lparr>rule_id = ''impersonation'',
        rule_keywords = [''bank'', ''bank se'', ''from bank'', ''rbi'', ''government'', ''police'',
                    ''tax department'', ''income tax'', ''sbi'', ''hdfc'', ''icici''],
        weight = 25\<rparr>,
      \<lparr>rule_id = ''otp_request'',
        rule_keywords = [''otp'', ''share otp'', ''otp batao'', ''otp bhejo'', ''pin'', ''cvv'',
                    ''password'', ''verify code''],
        weight = 30\<rparr>,
      \<lparr>rule_id = ''urgency'',
        rule_keywords = [''immediately'', ''urgent'', ''right now'', ''account blocked'',
                    ''account will be blocked'', ''suspend'', ''act now''],
        weight = 25\<rparr>,
      \<lparr>rule_id = ''authority'',
        rule_keywords = [''arrest'', ''police'', ''legal'', ''case'', ''fine'', ''court''],
        weight = 20\<rparr>,
      \<lparr>rule_id = ''money_request'',
        rule_keywords = [''transfer'', ''upi'', ''gift card'', ''pay'', ''send money''],
        weight = 25\<rparr>,
      \<lparr>rule_id = ''emotional'',
        rule_keywords = [''emergency'', ''help'', ''save'', ''fear'', ''threat''],
        weight = 15\<rparr>]"

fun client_loop ::
  "string \<Rightarrow> PatternRule list \<Rightarrow> ClientIndicator list \<Rightarrow> int \<Rightarrow> ClientIndicator list \<times> int"
where
  \<comment> \<open>\<open>for (const { id, keywords, weight } of patterns)\<close>, pushing to \<open>indicators\<close>\<close>
  "client_loop text [] inds score = (inds, score)"
| "client_loop text (p # ps) inds score =
     (let found = some_keyword text (rule_keywords p);
          pattern = find (\<lambda>sp. sp_id sp = rule_id p) scamPatterns
      in client_loop text ps
           (inds @ [\<lparr>c_pattern = pattern, c_detected = found,
                     c_confidence = (if found then 0.85 else 0)\<rparr>])
           (if found then score + weight p else score))"

definition client_sum :: "string \<Rightarrow> int" where
  \<comment> \<open>\<open>riskScore\<close> when the loop has run, before \<open>Math.min(100, riskScore)\<close>\<close>
  "client_sum transcript = snd (client_loop (normalize transcript) client_patterns [] 0)"

definition client_raw :: "string \<Rightarrow> int" where
  "client_raw transcript = min 100 (client_sum transcript)"

definition ruleBasedScamAnalysis ::
  "(RiskLevel \<Rightarrow> string \<Rightarrow> string list) \<Rightarrow> string \<Rightarrow> string \<Rightarrow> ClientResult"
where
  \<comment> \<open>\<open>getLocalizedGuidance\<close>, a table of localized (non-ASCII) texts, is the first argument\<close>
  "ruleBasedScamAnalysis getLocalizedGuidance transcript language =
     (let inds = fst (client_loop (normalize transcript) client_patterns [] 0);
          inds' = inds @ [\<lparr>c_pattern = find (\<lambda>sp. sp_id sp = ''voice_pattern'') scamPatterns,
                           c_detected = False, c_confidence = 0\<rparr>];
          score = client_raw transcript;
          lvl = band score
      in \<lparr>c_riskLevel = lvl,
           c_riskScore = (if lvl = High then max score 75 else score),
           c_indicators = inds',
           c_guidance = getLocalizedGuidance lvl language\<rparr>)"

definition detected_ids :: "ScamIndicator list \<Rightarrow> string list" where
  "detected_ids inds = map ind_id (filter detected inds)"

definition c_ids :: "ClientIndicator list \<Rightarrow> string option list" where
  "c_ids inds = map (\<lambda>i. map_option sp_id (c_pattern i)) inds"

definition c_detected_ids :: "ClientIndicator list \<Rightarrow> string option list" where
  "c_detected_ids inds = c_ids (filter c_detected inds)"


section \<open>JSON values\<close>

text \<open>
  The values that \<open>JSON.parse\<close> returns. \<open>JObj\<close> lists the own properties of an object in
  the order of the object, as \<open>JSON.stringify\<close> prints them. \<open>JNum\<close> is a finite number;
  \<open>JInfinity\<close> is what a literal beyond the range of a double decodes to, \<open>Infinity\<close>
  (\<open>JInfinity False\<close>, from \<open>1e400\<close>) or \<open>-Infinity\<close> (\<open>JInfinity True\<close>).
  \<open>JSON.parse\<close> itself belongs to the platform: the functions below take it as the argument
  \<open>parse\<close>, \<open>None\<close> standing for the \<open>SyntaxError\<close> it throws.
\<close>

datatype json =
    JNull
  | JBool bool
  | JNum real
  | JInfinity bool
  | JStr string
  | JArr "json list"
  | JObj "(string \<times> json) list"

definition get_prop :: "json \<Rightarrow> string \<Rightarrow> json option" where
  \<comment> \<open>\<open>v.k\<close> for a \<open>v\<close> that is not \<open>null\<close> and the keys the source reads (\<open>transcript\<close>,
      \<open>indicators\<close>, \<open>id\<close>): only an object has them; \<open>None\<close> is \<open>undefined\<close>\<close>
  "get_prop v k = (case v of JObj fs \<Rightarrow> map_of fs k | _ \<Rightarrow> None)"

fun falsy :: "json option \<Rightarrow> bool" where
  \<comment> \<open>\<open>!v\<close>\<close>
  "falsy None = True"
| "falsy (Some JNull) = True"
| "falsy (Some (JBool b)) = (\<not> b)"
| "falsy (Some (JNum n)) = (n = 0)"
| "falsy (Some (JInfinity neg)) = False"
| "falsy (Some (JStr s)) = (s = [])"
| "falsy (Some (JArr xs)) = False"
| "falsy (Some (JObj fs)) = False"

fun stringify :: "json \<Rightarrow> json" where
  \<comment> \<open>the value that the text \<open>JSON.stringify(v)\<close> denotes: a number that is not finite is
      printed as \<open>null\<close>, everything else as it is\<close>
  "stringify (JInfinity neg) = JNull"
| "stringify (JArr xs) = JArr (map stringify xs)"
| "stringify (JObj fs) = JObj (map (\<lambda>(k, v). (k, stringify v)) fs)"
| "stringify JNull = JNull"
| "stringify (JBool b) = JBool b"
| "stringify (JNum n) = JNum n"
| "stringify (JStr s) = JStr s"


section \<open>The AI branch of the edge function\<close>

fun split_from :: "string \<Rightarrow> string \<Rightarrow> string \<Rightarrow> string list" where
  \<comment> \<open>\<open>piece\<close> holds, reversed, the characters read since the last separator\<close>
  "split_from sep piece [] = [rev piece]"
| "split_from sep piece (c # cs) =
     (if prefix sep (c # cs)
      then rev piece # split_from sep [] (drop (length sep - 1) cs)
      else split_from sep (c # piece) cs)"

definition split_js :: "string \<Rightarrow> string \<Rightarrow> string list" where
  \<comment> \<open>\<open>s.split(sep)\<close> for a separator that is not empty\<close>
  "split_js s sep = split_from sep [] s"

fun nth_opt :: "'a list \<Rightarrow> nat \<Rightarrow> 'a option" where
  \<comment> \<open>\<open>xs[n]\<close>; \<open>None\<close> is \<open>undefined\<close>\<close>
  "nth_opt [] n = None"
| "nth_opt (x # xs) 0 = Some x"
| "nth_opt (x # xs) (Suc n) = nth_opt xs n"

definition fenced :: "string \<Rightarrow> string \<Rightarrow> string option" where
  \<comment> \<open>\<open>content.split(fence)[1].split('```')[0].trim()\<close>; \<open>None\<close> when a method is called
      on \<open>undefined\<close>\<close>
  "fenced content fence =
     (case nth_opt (split_js content fence) 1 of
        None \<Rightarrow> None
      | Some part \<Rightarrow>
          (case nth_opt (split_js part ''```'') 0 of
             None \<Rightarrow> None
           | Some inner \<Rightarrow> Some (trim inner)))"

definition extract_json :: "string \<Rightarrow> string option" where
  "extract_json content =
     (if str_includes content ''```json'' then fenced content ''```json''
      else if str_includes content ''```'' then fenced content ''```''
      else Some content)"

definition neutral_default :: json where
  "neutral_default =
     JObj [(''riskLevel'', JStr ''medium''),
           (''riskScore'', JNum 50),
           (''indicators'', JArr []),
           (''guidance'', JArr [JStr ''Unable to fully analyze. Please be cautious.''])]"

definition decode :: "(string \<Rightarrow> json option) \<Rightarrow> string \<Rightarrow> json" where
  \<comment> \<open>the inner \<open>try\<close>: any exception of the extraction or of \<open>JSON.parse\<close> ends in the
      safe defaults\<close>
  "decode parse content =
     (case extract_json content of
        None \<Rightarrow> neutral_default
      | Some jsonStr \<Rightarrow>
          (case parse jsonStr of
             None \<Rightarrow> neutral_default
           | Some analysis \<Rightarrow> analysis))"

fun existing_ids :: "json list \<Rightarrow> json option list option" where
  \<comment> \<open>\<open>indicators.map(i => i.id)\<close>; reading \<open>id\<close> of \<open>null\<close> throws a TypeError (\<open>None\<close>)\<close>
  "existing_ids [] = Some []"
| "existing_ids (i # rest) =
     (if i = JNull then None
      else map_option (\<lambda>ids. get_prop i ''id'' # ids) (existing_ids rest))"

definition blank_indicator :: "string \<Rightarrow> json" where
  "blank_indicator ty =
     JObj [(''id'', JStr ty), (''type'', JStr ty), (''detected'', JBool False),
           (''confidence'', JNum 0)]"

definition ensure_indicators :: "json \<Rightarrow> json option" where
  \<comment> \<open>the backfill loop; \<open>None\<close> when \<open>analysis.indicators.map\<close> throws a TypeError:
      \<open>analysis\<close> is not an object, or \<open>indicators\<close> is not an array, or an entry is \<open>null\<close>\<close>
  "ensure_indicators analysis =
     (case analysis of
        JObj fs \<Rightarrow>
          (case map_of fs ''indicators'' of
             Some (JArr inds) \<Rightarrow>
               (case existing_ids inds of
                  None \<Rightarrow> None
                | Some existingIds \<Rightarrow>
                    Some (JObj (AList.update ''indicators''
                      (JArr (inds @ map blank_indicator
                               (filter (\<lambda>ty. Some (JStr ty) \<notin> set existingIds) indicatorTypes)))
                      fs)))
           | _ \<Rightarrow> None)
      | _ \<Rightarrow> None)"

text \<open>
  A response is a status and a body. \<open>RuntimeErrorBody\<close> is \<open>{error: error.message}\<close> for an
  exception raised by the runtime (its wording belongs to the engine), \<open>GatewayErrorBody st\<close>
  is \<open>{error: `AI gateway error: ${st}`}\<close>. \<open>RuleBody r\<close> is the text
  \<open>JSON.stringify(r)\<close> of a rule-based result, whose numbers are all finite; \<open>AnalysisBody v\<close>
  is a body whose text denotes the JSON value \<open>v\<close>.
\<close>

datatype body =
    NoBody
  | ErrorBody string
  | RuntimeErrorBody
  | GatewayErrorBody nat
  | RuleBody AnalysisResult
  | AnalysisBody json

record Response =
  status :: nat
  body :: body

text \<open>
  What the gateway call gives the handler: an exception with its message (\<open>fetch\<close> or
  \<open>response.json()\<close> rejects, or the reply is \<open>null\<close> and reading \<open>choices\<close> throws), a
  status that is not 2xx, or a 2xx reply, of which the handler reads
  \<open>aiResponse.choices?.[0]?.message?.content\<close> (\<open>None\<close> is \<open>undefined\<close>).
\<close>

datatype Gateway =
    Throws string
  | HttpError nat
  | Completion "json option"

definition ai_branch :: "(string \<Rightarrow> json option) \<Rightarrow> Gateway \<Rightarrow> Response" where
  "ai_branch parse gateway =
     (case gateway of
        Throws msg \<Rightarrow> \<lparr>status = 500, body = ErrorBody msg\<rparr>
      | HttpError st \<Rightarrow>
          if st = 429
          then \<lparr>status = 429, body = ErrorBody ''Rate limit exceeded. Please try again in a moment.''\<rparr>
          else if st = 402
          then \<lparr>status = 402, body = ErrorBody ''Usage limit reached. Please check your account.''\<rparr>
          else \<lparr>status = 500, body = GatewayErrorBody st\<rparr>
      | Completion c \<Rightarrow>
          (case (if falsy c then None else c) of
             Some (JStr content) \<Rightarrow>
               (case ensure_indicators (decode parse content) of
                  None \<Rightarrow> \<lparr>status = 500, body = RuntimeErrorBody\<rparr>
                | Some analysis \<Rightarrow>
                    \<lparr>status = 200, body = AnalysisBody (stringify analysis)\<rparr>)
           | _ \<Rightarrow> \<lparr>status = 500, body = ErrorBody ''AI did not return analysis''\<rparr>))"

record Request =
  req_method :: string
  req_json :: "json option"

definition serve :: "string option \<Rightarrow> (string \<Rightarrow> json option) \<Rightarrow> Gateway \<Rightarrow> Request \<Rightarrow> Response" where
  \<comment> \<open>\<open>req_json\<close> is the value of \<open>await req.json()\<close>, \<open>None\<close> when it rejects. The
      \<open>language\<close> of the request only enters the prompt sent to the gateway.\<close>
  "serve LOVABLE_API_KEY parse gateway req =
     (if req_method req = ''OPTIONS'' then \<lparr>status = 200, body = NoBody\<rparr>
      else
        (case req_json req of
           None \<Rightarrow> \<lparr>status = 500, body = RuntimeErrorBody\<rparr>
         | Some JNull \<Rightarrow> \<lparr>status = 500, body = RuntimeErrorBody\<rparr>
         | Some reqBody \<Rightarrow>
             (let transcript = get_prop reqBody ''transcript''
              in if falsy transcript
                 then \<lparr>status = 400, body = ErrorBody ''No transcript provided''\<rparr>
                 else
                   (case transcript of
                      Some (JStr s) \<Rightarrow>
                        if length (trim s) = 0
                        then \<lparr>status = 400, body = ErrorBody ''No transcript provided''\<rparr>
                        else if LOVABLE_API_KEY = None \<or> LOVABLE_API_KEY = Some []
                        then \<lparr>status = 200, body = RuleBody (rule_based_branch (normalize s))\<rparr>
                        else ai_branch parse gateway
                    | _ \<Rightarrow> \<lparr>status = 500, body = RuntimeErrorBody\<rparr>))))"

text \<open>The fields of a 200 body, as a reader of the JSON sees them.\<close>

definition level_name :: "RiskLevel \<Rightarrow> string" where
  "level_name lvl = (case lvl of Low \<Rightarrow> ''low'' | Medium \<Rightarrow> ''medium'' | High \<Rightarrow> ''high'')"

definition body_riskScore :: "body \<Rightarrow> json option" where
  "body_riskScore b =
     (case b of
        RuleBody r \<Rightarrow> Some (JNum (of_int (riskScore r)))
      | AnalysisBody a \<Rightarrow> get_prop a ''riskScore''
      | _ \<Rightarrow> None)"

definition body_riskLevel :: "body \<Rightarrow> json option" where
  "body_riskLevel b =
     (case b of
        RuleBody r \<Rightarrow> Some (JStr (level_name (riskLevel r)))
      | AnalysisBody a \<Rightarrow> get_prop a ''riskLevel''
      | _ \<Rightarrow> None)"

definition body_indicators :: "body \<Rightarrow> json list" where
  \<comment> \<open>the entries of \<open>indicators\<close> in an AI body\<close>
  "body_indicators b =
     (case b of
        AnalysisBody a \<Rightarrow>
          (case get_prop a ''indicators'' of Some (JArr inds) \<Rightarrow> inds | _ \<Rightarrow> [])
      | _ \<Rightarrow> [])"

definition body_indicator_ids :: "body \<Rightarrow> json option list" where
  "body_indicator_ids b =
     (case b of
        RuleBody r \<Rightarrow> map (\<lambda>i. Some (JStr (ind_id i))) (indicators r)
      | AnalysisBody a \<Rightarrow>
          (case get_prop a ''indicators'' of
             Some (JArr inds) \<Rightarrow> map (\<lambda>i. get_prop i ''id'') inds
           | _ \<Rightarrow> [])
      | _ \<Rightarrow> [])"


section \<open>The monitoring scheduler of the client hook\<close>

text \<open>
  The hook \<open>useScamAnalysis\<close> keeps its state in React state and refs. A run of the hook is
  a sequence of events. A call of a function of the hook from outside and the callback of a
  timer run until they return or reach an \<open>await\<close>; what follows the \<open>await\<close> is a
  continuation, run later as a microtask. The body of \<open>analyzeTranscript\<close> holds no
  \<open>await\<close>: it runs, and publishes with \<open>setAnalysis\<close>, inside the event that calls it.

  \<open>stopAnalysis\<close> awaits its final analysis: the two assignments behind that \<open>await\<close> are
  the event \<open>StopResume\<close>, and \<open>pendingStops\<close> counts the continuations that wait. The
  caller can go on calling the hook before the continuation runs; a timer callback cannot
  run before it, since the microtasks are emptied before the next timer callback. The
  continuation of \<open>runIntervalCheck\<close> behind its \<open>await\<close> is empty and is left out, and so
  is \<open>timestamp: new Date()\<close> in the results.

  \<open>trace\<close> is not a variable of the source. It records every dispatch, that is every call
  of \<open>analyzeTranscript\<close>, with the trigger that made it and the snapshot it was given, and
  every place where the hook sets the last-analyzed length back to 0: \<open>startAnalysis\<close>
  (\<open>SessionStart\<close>) and the end of \<open>stopAnalysis\<close> (\<open>SessionEnd\<close>).
\<close>

datatype Trigger = ByInterval | ByDebounce | ByStop

datatype Entry =
    Dispatched Trigger string
  | SessionStart
  | SessionEnd

datatype TimeoutRef = Null | Pending | Fired

record Hook =
  isAnalyzing :: bool
  analysis :: "ClientResult option"
  transcriptRef :: string
  lastAnalyzedLengthRef :: nat
  debounceRef :: bool
  firstCheckTimeoutRef :: TimeoutRef
  intervalRef :: bool
  leakedTimeouts :: nat
  leakedIntervals :: nat
  pendingStops :: nat
  trace :: "Entry list"

text \<open>
  \<open>debounceRef\<close> and \<open>intervalRef\<close> tell whether the ref holds a live timer;
  \<open>firstCheckTimeoutRef\<close> also tells whether the warm-up timeout it holds has fired.
  \<open>startAnalysis\<close> overwrites both of its refs without clearing them, so a timer started by
  an earlier \<open>startAnalysis\<close> stays live with no ref to it: these are counted by
  \<open>leakedTimeouts\<close> and \<open>leakedIntervals\<close>.
\<close>

definition initial_hook :: Hook where
  "initial_hook =
     \<lparr>isAnalyzing = False, analysis = None, transcriptRef = [], lastAnalyzedLengthRef = 0,
      debounceRef = False, firstCheckTimeoutRef = Null, intervalRef = False,
      leakedTimeouts = 0, leakedIntervals = 0, pendingStops = 0, trace = []\<rparr>"

definition ANALYZE_THRESHOLD :: nat where
  "ANALYZE_THRESHOLD = 15"

definition safe_state :: "(RiskLevel \<Rightarrow> string \<Rightarrow> string list) \<Rightarrow> string \<Rightarrow> ClientResult" where
  \<comment> \<open>the initial safe state that \<open>startAnalysis\<close> publishes\<close>
  "safe_state getLocalizedGuidance language =
     \<lparr>c_riskLevel = Low, c_riskScore = 0,
      c_indicators =
        map (\<lambda>p. \<lparr>c_pattern = Some p, c_detected = False, c_confidence = 0\<rparr>) scamPatterns,
      c_guidance = getLocalizedGuidance Low language\<rparr>"

definition analyzeTranscript ::
  "(RiskLevel \<Rightarrow> string \<Rightarrow> string list) \<Rightarrow> string \<Rightarrow> Trigger \<Rightarrow> string \<Rightarrow> Hook \<Rightarrow> Hook"
where
  \<comment> \<open>\<open>trigger\<close> is not an argument of the source: it names the caller in the trace\<close>
  "analyzeTranscript getLocalizedGuidance language trigger transcript h =
     h\<lparr>analysis := Some (ruleBasedScamAnalysis getLocalizedGuidance transcript language),
       trace := trace h @ [Dispatched trigger transcript]\<rparr>"

definition runIntervalCheck ::
  "(RiskLevel \<Rightarrow> string \<Rightarrow> string list) \<Rightarrow> string \<Rightarrow> Hook \<Rightarrow> Hook"
where
  "runIntervalCheck getLocalizedGuidance language h =
     (let currentTranscript = transcriptRef h
      in if length currentTranscript \<ge> ANALYZE_THRESHOLD
            \<and> length currentTranscript > lastAnalyzedLengthRef h
         then analyzeTranscript getLocalizedGuidance language ByInterval currentTranscript
                (h\<lparr>lastAnalyzedLengthRef := length currentTranscript\<rparr>)
         else h)"

definition startAnalysis ::
  "(RiskLevel \<Rightarrow> string \<Rightarrow> string list) \<Rightarrow> string \<Rightarrow> string \<Rightarrow> Hook \<Rightarrow> Hook"
where
  "startAnalysis getLocalizedGuidance language initialTranscript h =
     h\<lparr>isAnalyzing := True,
       transcriptRef := initialTranscript,
       lastAnalyzedLengthRef := 0,
       analysis := Some (safe_state getLocalizedGuidance language),
       trace := trace h @ [SessionStart],
       leakedTimeouts :=
         (if firstCheckTimeoutRef h = Pending then leakedTimeouts h + 1 else leakedTimeouts h),
       firstCheckTimeoutRef := Pending,
       leakedIntervals :=
         (if intervalRef h then leakedIntervals h + 1 else leakedIntervals h),
       intervalRef := True\<rparr>"

definition stopTail :: "Hook \<Rightarrow> Hook" where
  \<comment> \<open>the last two assignments of \<open>stopAnalysis\<close>\<close>
  "stopTail h =
     h\<lparr>transcriptRef := [], lastAnalyzedLengthRef := 0, trace := trace h @ [SessionEnd]\<rparr>"

definition stopAnalysis ::
  "(RiskLevel \<Rightarrow> string \<Rightarrow> string list) \<Rightarrow> string \<Rightarrow> Hook \<Rightarrow> Hook"
where
  \<comment> \<open>up to the \<open>await\<close>; with a transcript under 15 characters there is no \<open>await\<close> and
      the function runs to its end\<close>
  "stopAnalysis getLocalizedGuidance language h =
     (let h1 = h\<lparr>isAnalyzing := False, debounceRef := False, firstCheckTimeoutRef := Null,
                 intervalRef := False\<rparr>;
          finalTranscript = transcriptRef h1
      in if length finalTranscript \<ge> 15
         then (analyzeTranscript getLocalizedGuidance language ByStop finalTranscript h1)
                \<lparr>pendingStops := pendingStops h1 + 1\<rparr>
         else stopTail h1)"

definition stopResume :: "Hook \<Rightarrow> Hook" where
  \<comment> \<open>the continuation of \<open>stopAnalysis\<close> behind its \<open>await\<close>\<close>
  "stopResume h = stopTail (h\<lparr>pendingStops := pendingStops h - 1\<rparr>)"

definition updateTranscript :: "string \<Rightarrow> Hook \<Rightarrow> Hook" where
  \<comment> \<open>clears the pending debounce timeout, if any, and arms a new one\<close>
  "updateTranscript newTranscript h =
     (let h1 = h\<lparr>transcriptRef := newTranscript\<rparr>
      in if length (trim newTranscript) \<ge> 10 then h1\<lparr>debounceRef := True\<rparr> else h1)"

definition debounceExpiry ::
  "(RiskLevel \<Rightarrow> string \<Rightarrow> string list) \<Rightarrow> string \<Rightarrow> Hook \<Rightarrow> Hook"
where
  \<comment> \<open>the callback of the debounce timeout\<close>
  "debounceExpiry getLocalizedGuidance language h =
     (let h1 = h\<lparr>debounceRef := False\<rparr>;
          current = transcriptRef h1
      in if length current > lastAnalyzedLengthRef h1
         then analyzeTranscript getLocalizedGuidance language ByDebounce current
                (h1\<lparr>lastAnalyzedLengthRef := length current\<rparr>)
         else h1)"

datatype Event =
    StartAnalysis string
  | UpdateTranscript string
  | FirstCheck
  | IntervalTick
  | DebounceExpiry
  | StopAnalysis
  | StopResume

definition step ::
  "(RiskLevel \<Rightarrow> string \<Rightarrow> string list) \<Rightarrow> string \<Rightarrow> Event \<Rightarrow> Hook \<Rightarrow> Hook"
where
  \<comment> \<open>An event that cannot happen leaves the state as it is: a timer callback with no live
      timer behind it or with a continuation waiting, a continuation when none waits.
      Warm-up timeouts all wait 2 seconds, so the oldest pending one fires first.\<close>
  "step g language e h =
     (case e of
        StartAnalysis initialTranscript \<Rightarrow> startAnalysis g language initialTranscript h
      | UpdateTranscript newTranscript \<Rightarrow> updateTranscript newTranscript h
      | FirstCheck \<Rightarrow>
          if pendingStops h > 0 then h
          else if leakedTimeouts h > 0
          then runIntervalCheck g language (h\<lparr>leakedTimeouts := leakedTimeouts h - 1\<rparr>)
          else if firstCheckTimeoutRef h = Pending
          then runIntervalCheck g language (h\<lparr>firstCheckTimeoutRef := Fired\<rparr>)
          else h
      | IntervalTick \<Rightarrow>
          if pendingStops h = 0 \<and> (intervalRef h \<or> leakedIntervals h > 0)
          then runIntervalCheck g language h else h
      | DebounceExpiry \<Rightarrow>
          if pendingStops h = 0 \<and> debounceRef h then debounceExpiry g language h else h
      | StopAnalysis \<Rightarrow> stopAnalysis g language h
      | StopResume \<Rightarrow> if pendingStops h > 0 then stopResume h else h)"

fun run ::
  "(RiskLevel \<Rightarrow> string \<Rightarrow> string list) \<Rightarrow> string \<Rightarrow> Event list \<Rightarrow> Hook \<Rightarrow> Hook"
where
  "run g language [] h = h"
| "run g language (e # es) h = run g language es (step g language e h)"

text \<open>Reading the trace.\<close>

fun dispatches :: "Entry list \<Rightarrow> string list" where
  \<comment> \<open>the snapshots of the dispatches, in the order they were made\<close>
  "dispatches [] = []"
| "dispatches (Dispatched trigger t # l) = t # dispatches l"
| "dispatches (SessionStart # l) = dispatches l"
| "dispatches (SessionEnd # l) = dispatches l"

fun previous_length :: "nat \<Rightarrow> Entry list \<Rightarrow> nat" where
  \<comment> \<open>the length of the transcript that a trigger check dispatched last in the session
      that is open at the end of the trace, 0 when there is none; \<open>n\<close> is that length at
      the start of the trace\<close>
  "previous_length n [] = n"
| "previous_length n (Dispatched ByInterval t # l) = previous_length (length t) l"
| "previous_length n (Dispatched ByDebounce t # l) = previous_length (length t) l"
| "previous_length n (Dispatched ByStop t # l) = previous_length n l"
| "previous_length n (SessionStart # l) = previous_length 0 l"
| "previous_length n (SessionEnd # l) = previous_length 0 l"

fun guarded :: "nat \<Rightarrow> Entry list \<Rightarrow> bool" where
  \<comment> \<open>every dispatch of the trace met the condition of its trigger: an interval check
      dispatches 15 characters or more, and more than the trigger check before it in the
      session dispatched; a debounce expiry dispatches more than the trigger check before it
      dispatched; the final dispatch of \<open>stopAnalysis\<close> has 15 characters or more\<close>
  "guarded n [] = True"
| "guarded n (Dispatched ByInterval t # l) =
     (15 \<le> length t \<and> n < length t \<and> guarded (length t) l)"
| "guarded n (Dispatched ByDebounce t # l) = (n < length t \<and> guarded (length t) l)"
| "guarded n (Dispatched ByStop t # l) = (15 \<le> length t \<and> guarded n l)"
| "guarded n (SessionStart # l) = guarded 0 l"
| "guarded n (SessionEnd # l) = guarded 0 l"

text \<open>Two abbreviations used to state facts about the client loop.\<close>

definition client_indicator :: "string \<Rightarrow> PatternRule \<Rightarrow> ClientIndicator" where
  \<comment> \<open>the indicator one turn of the loop pushes\<close>
  "client_indicator t p =
     \<lparr>c_pattern = find (\<lambda>sp. sp_id sp = rule_id p) scamPatterns,
      c_detected = some_keyword t (rule_keywords p),
      c_confidence = (if some_keyword t (rule_keywords p) then 0.85 else 0)\<rparr>"

definition client_gain :: "string \<Rightarrow> PatternRule \<Rightarrow> int" where
  \<comment> \<open>what one turn of the loop adds to the score\<close>
  "client_gain t p = (if some_keyword t (rule_keywords p) then weight p else 0)"

text \<open>Two more, for the backfill: the types it adds, and the safe defaults once backfilled.\<close>

definition missing_types :: "json list \<Rightarrow> string list" where
  \<comment> \<open>the canonical ids that no entry of \<open>inds\<close> has\<close>
  "missing_types inds =
     filter (\<lambda>ty. Some (JStr ty) \<notin> set (map (\<lambda>i. get_prop i ''id'') inds)) indicatorTypes"

definition neutral_result :: json where
  "neutral_result =
     JObj [(''riskLevel'', JStr ''medium''),
           (''riskScore'', JNum 50),
           (''indicators'', JArr (map blank_indicator indicatorTypes)),
           (''guidance'', JArr [JStr ''Unable to fully analyze. Please be cautious.''])]"


text \<open>
  Inputs for the examples: a POST request whose body is \<open>{"transcript": s}\<close>, and a
  \<open>JSON.parse\<close> known at one text only, where it returns the given value.
\<close>

definition post :: "string \<Rightarrow> Request" where
  "post s = \<lparr>req_method = ''POST'', req_json = Some (JObj [(''transcript'', JStr s)])\<rparr>"

definition parses_to :: "string \<Rightarrow> json \<Rightarrow> string \<Rightarrow> json option" where
  "parses_to src v s = (if s = src then Some v else None)"

section \<open>Facts about the model\<close>

subsection \<open>Strings\<close>

lemma str_includes_sublist: "str_includes t kw \<longleftrightarrow> sublist kw t"
  by (induction t) (auto simp: sublist_Cons_right)

lemma prefix_rev_dropWhile_rev: "prefix (rev (dropWhile P (rev a))) a"
proof -
  have "suffix (dropWhile P (rev a)) (rev a)" by (rule suffix_dropWhile)
  then show ?thesis
    by (metis rev_rev_ident suffix_to_prefix)
qed

lemma trim_append_prefix: "prefix (trim xs) (trim (xs @ ys))"
proof (cases "\<forall>x\<in>set xs. is_space x")
  case True
  then have d0: "dropWhile is_space xs = []" by (metis dropWhile_eq_Nil_conv)
  have "trim xs = []" unfolding trim_def d0 by simp
  then show ?thesis by simp
next
  case False
  then obtain x where x: "x \<in> set xs" "\<not> is_space x" by blast
  then have d: "dropWhile is_space (xs @ ys) = dropWhile is_space xs @ ys"
    by (simp add: dropWhile_append1)
  define a where "a = dropWhile is_space xs"
  show ?thesis
  proof (cases "\<forall>y\<in>set ys. is_space y")
    case True
    then have "dropWhile is_space (rev ys @ rev a) = dropWhile is_space (rev a)"
      by (intro dropWhile_append2) simp
    then show ?thesis by (simp add: trim_def d a_def)
  next
    case False
    then obtain y where "y \<in> set (rev ys)" "\<not> is_space y" by auto
    then have "dropWhile is_space (rev ys @ rev a) = dropWhile is_space (rev ys) @ rev a"
      by (simp add: dropWhile_append1)
    then have "trim (xs @ ys) = a @ rev (dropWhile is_space (rev ys))"
      by (simp add: trim_def d a_def)
    moreover have "prefix (trim xs) a"
      unfolding trim_def a_def by (rule prefix_rev_dropWhile_rev)
    ultimately show ?thesis by (metis prefix_prefix)
  qed
qed

lemma normalize_append_prefix: "prefix (normalize t) (normalize (t @ s))"
  by (simp add: normalize_def toLowerCase_def trim_append_prefix)

lemma str_includes_extend:
  "str_includes (normalize t) kw \<Longrightarrow> str_includes (normalize (t @ s)) kw"
  unfolding str_includes_sublist
  using normalize_append_prefix [of t s]
  by (meson prefix_imp_sublist sublist_order.order_trans)

lemma some_keyword_mono:
  assumes "\<And>kw. str_includes a kw \<Longrightarrow> str_includes b kw"
  shows "some_keyword a kws \<Longrightarrow> some_keyword b kws"
  using assms by (auto simp: some_keyword_def list_ex_iff)

subsection \<open>The edge table\<close>

lemma edge_patterns_weight_nonneg: "p \<in> set edge_patterns \<Longrightarrow> 0 \<le> weight p"
  by (auto simp: edge_patterns_def)

lemma find_edge_weight_nonneg: "find P edge_patterns = Some p \<Longrightarrow> 0 \<le> weight p"
  by (rule edge_patterns_weight_nonneg) (auto simp: find_Some_iff)

lemma edge_indicators_ids: "map ind_id (fst (edge_indicators t tys score)) = tys"
  by (induction tys arbitrary: score) (auto simp: Let_def case_prod_beta)

lemma edge_indicators_mono:
  assumes inc: "\<And>kw. str_includes a kw \<Longrightarrow> str_includes b kw"
  shows "x \<le> y \<Longrightarrow> snd (edge_indicators a tys x) \<le> snd (edge_indicators b tys y)"
proof (induction tys arbitrary: x y)
  case Nil
  then show ?case by simp
next
  case (Cons ty tys)
  show ?case
  proof (cases "find (\<lambda>p. rule_id p = ty) edge_patterns")
    case None
    then show ?thesis using Cons.IH [OF Cons.prems]
      by (simp add: Let_def case_prod_beta)
  next
    case (Some p)
    have w: "0 \<le> weight p" using Some by (rule find_edge_weight_nonneg)
    have d: "edge_detected a (Some p) \<Longrightarrow> edge_detected b (Some p)"
      using some_keyword_mono [of a b, OF inc] by (simp add: edge_detected_def)
    have "snd (edge_indicators a tys (if edge_detected a (Some p) then x + weight p else x))
          \<le> snd (edge_indicators b tys (if edge_detected b (Some p) then y + weight p else y))"
      by (rule Cons.IH) (use w d Cons.prems in auto)
    then show ?thesis using Some
      by (simp add: Let_def case_prod_beta)
  qed
qed

lemma edge_detected_ids_mono:
  assumes inc: "\<And>kw. str_includes a kw \<Longrightarrow> str_includes b kw"
  shows "set (detected_ids (fst (edge_indicators a tys x)))
         \<subseteq> set (detected_ids (fst (edge_indicators b tys y)))"
proof (induction tys arbitrary: x y)
  case Nil
  then show ?case by (simp add: detected_ids_def)
next
  case (Cons ty tys)
  let ?p = "find (\<lambda>p. rule_id p = ty) edge_patterns"
  have d: "edge_detected a ?p \<Longrightarrow> edge_detected b ?p"
    using some_keyword_mono [of a b, OF inc]
    by (cases ?p) (simp_all add: edge_detected_def)
  show ?case using d Cons.IH
    by (auto simp: Let_def case_prod_beta detected_ids_def)
qed

lemma edge_indicators_ge: "score \<le> snd (edge_indicators t tys score)"
proof (induction tys arbitrary: score)
  case Nil
  then show ?case by simp
next
  case (Cons ty tys)
  show ?case
  proof (cases "find (\<lambda>p. rule_id p = ty) edge_patterns")
    case None
    then show ?thesis using Cons.IH [of score]
      by (simp add: Let_def case_prod_beta)
  next
    case (Some p)
    have w: "0 \<le> weight p" using Some by (rule find_edge_weight_nonneg)
    show ?thesis
      using Some w Cons.IH [of score] Cons.IH [of "score + weight p"]
      by (auto simp: Let_def case_prod_beta)
  qed
qed

lemma edge_sum_nonneg: "0 \<le> edge_sum t"
  unfolding edge_sum_def by (rule edge_indicators_ge)

lemma band_High_iff: "band x = High \<longleftrightarrow> 50 \<le> x"
  by (simp add: band_def)

lemma rule_based_branch_score:
  "riskScore (rule_based_branch t) = (if 50 \<le> edge_raw t then max (edge_raw t) 75 else edge_raw t)"
  by (simp add: rule_based_branch_def Let_def band_High_iff)

lemma rule_based_branch_level: "riskLevel (rule_based_branch t) = band (edge_raw t)"
  by (simp add: rule_based_branch_def Let_def)

lemma rule_based_branch_ids: "map ind_id (indicators (rule_based_branch t)) = indicatorTypes"
  by (simp add: rule_based_branch_def Let_def edge_indicators_ids)

lemma rule_based_branch_range:
  "0 \<le> riskScore (rule_based_branch t) \<and> riskScore (rule_based_branch t) \<le> 100"
  using edge_sum_nonneg [of t] by (auto simp: rule_based_branch_score edge_raw_def)

subsection \<open>The client table\<close>

lemma client_loop_fst:
  "fst (client_loop t ps inds score) = inds @ map (client_indicator t) ps"
  by (induction ps arbitrary: inds score) (simp_all add: Let_def client_indicator_def)

lemma client_loop_snd:
  "snd (client_loop t ps inds score) = score + sum_list (map (client_gain t) ps)"
  by (induction ps arbitrary: inds score) (simp_all add: Let_def client_gain_def)

lemma client_patterns_weight_nonneg: "p \<in> set client_patterns \<Longrightarrow> 0 \<le> weight p"
  by (auto simp: client_patterns_def)

lemma client_sum_eq: "client_sum t = sum_list (map (client_gain (normalize t)) client_patterns)"
  by (simp add: client_sum_def client_loop_snd)

lemma client_sum_nonneg: "0 \<le> client_sum t"
  unfolding client_sum_eq
  by (rule sum_list_nonneg) (auto simp: client_gain_def client_patterns_weight_nonneg)

lemma client_sum_mono:
  assumes inc: "\<And>kw. str_includes (normalize a) kw \<Longrightarrow> str_includes (normalize b) kw"
  shows "client_sum a \<le> client_sum b"
  unfolding client_sum_eq
proof (rule sum_list_mono)
  fix p assume "p \<in> set client_patterns"
  then have "0 \<le> weight p" by (rule client_patterns_weight_nonneg)
  then show "client_gain (normalize a) p \<le> client_gain (normalize b) p"
    using some_keyword_mono [of "normalize a" "normalize b", OF inc]
    by (auto simp: client_gain_def)
qed

lemma client_score:
  "c_riskScore (ruleBasedScamAnalysis g t l) =
     (if 50 \<le> client_raw t then max (client_raw t) 75 else client_raw t)"
  by (simp add: ruleBasedScamAnalysis_def Let_def band_High_iff)

lemma client_level: "c_riskLevel (ruleBasedScamAnalysis g t l) = band (client_raw t)"
  by (simp add: ruleBasedScamAnalysis_def Let_def)

lemma client_range:
  "0 \<le> c_riskScore (ruleBasedScamAnalysis g t l) \<and> c_riskScore (ruleBasedScamAnalysis g t l) \<le> 100"
  using client_sum_nonneg [of t] by (auto simp: client_score client_raw_def)

lemma client_indicators_eq:
  "c_indicators (ruleBasedScamAnalysis g t l) =
     map (client_indicator (normalize t)) client_patterns
     @ [\<lparr>c_pattern = find (\<lambda>sp. sp_id sp = ''voice_pattern'') scamPatterns,
          c_detected = False, c_confidence = 0\<rparr>]"
  by (simp add: ruleBasedScamAnalysis_def Let_def client_loop_fst)

lemma client_ids:
  "c_ids (c_indicators (ruleBasedScamAnalysis g t l)) =
     [Some ''impersonation'', Some ''otp_request'', Some ''urgency'', Some ''authority'',
      Some ''money_request'', Some ''emotional'', Some ''voice_pattern'']"
  by (simp add: client_indicators_eq c_ids_def client_indicator_def client_patterns_def
      scamPatterns_def)

lemma client_detected_ids_eq:
  "c_detected_ids (c_indicators (ruleBasedScamAnalysis g t l)) =
     map (\<lambda>p. map_option sp_id (find (\<lambda>sp. sp_id sp = rule_id p) scamPatterns))
       (filter (\<lambda>p. some_keyword (normalize t) (rule_keywords p)) client_patterns)"
  by (simp add: client_indicators_eq c_detected_ids_def c_ids_def client_indicator_def
      filter_map comp_def)

lemma client_detected_ids_mono:
  assumes inc: "\<And>kw. str_includes (normalize a) kw \<Longrightarrow> str_includes (normalize b) kw"
  shows "set (c_detected_ids (c_indicators (ruleBasedScamAnalysis g a l)))
         \<subseteq> set (c_detected_ids (c_indicators (ruleBasedScamAnalysis g b l)))"
  unfolding client_detected_ids_eq
  using some_keyword_mono [of "normalize a" "normalize b", OF inc]
  by auto

subsection \<open>The AI branch\<close>

lemma get_prop_stringify: "get_prop (stringify v) k = map_option stringify (get_prop v k)"
  by (cases v) (simp_all add: get_prop_def map_of_map)

lemma stringify_blank_indicator: "stringify (blank_indicator ty) = blank_indicator ty"
  by (simp add: blank_indicator_def)

lemma stringify_neutral_result: "stringify neutral_result = neutral_result"
  by (simp add: neutral_result_def stringify_blank_indicator)


lemma existing_ids_SomeD:
  "existing_ids inds = Some ids \<Longrightarrow> ids = map (\<lambda>i. get_prop i ''id'') inds"
  by (induction inds arbitrary: ids) (auto split: if_splits)

lemma ensure_indicators_SomeD:
  assumes "ensure_indicators a = Some a'"
  shows "\<exists>fs inds. a = JObj fs \<and> map_of fs ''indicators'' = Some (JArr inds)
           \<and> a' = JObj (AList.update ''indicators''
                    (JArr (inds @ map blank_indicator (missing_types inds))) fs)"
  using assms
  by (auto simp: ensure_indicators_def missing_types_def
      split: json.splits option.splits dest!: existing_ids_SomeD)


lemma ensure_indicators_other_props:
  assumes "ensure_indicators a = Some a'" and "k \<noteq> ''indicators''"
  shows "get_prop a' k = get_prop a k"
proof -
  from ensure_indicators_SomeD [OF assms(1)] obtain fs inds where
    "a = JObj fs" "a' = JObj (AList.update ''indicators''
        (JArr (inds @ map blank_indicator (missing_types inds))) fs)"
    by blast
  then show ?thesis using assms(2) by (simp add: get_prop_def update_conv')
qed

lemma ensure_indicators_indicators:
  assumes "ensure_indicators a = Some a'"
  shows "\<exists>inds. get_prop a ''indicators'' = Some (JArr inds)
           \<and> body_indicators (AnalysisBody (stringify a'))
               = map stringify inds @ map blank_indicator (missing_types inds)"
proof -
  from ensure_indicators_SomeD [OF assms] obtain fs inds where
    a: "a = JObj fs" "map_of fs ''indicators'' = Some (JArr inds)"
    and a': "a' = JObj (AList.update ''indicators''
        (JArr (inds @ map blank_indicator (missing_types inds))) fs)"
    by blast
  have "get_prop a' ''indicators''
          = Some (JArr (inds @ map blank_indicator (missing_types inds)))"
    by (simp add: a' get_prop_def update_conv')
  then have "body_indicators (AnalysisBody (stringify a'))
               = map stringify inds @ map blank_indicator (missing_types inds)"
    by (simp add: body_indicators_def get_prop_stringify stringify_blank_indicator)
  then show ?thesis using a by (auto simp: get_prop_def)
qed

lemma blank_indicator_id: "get_prop (blank_indicator ty) ''id'' = Some (JStr ty)"
  by (simp add: blank_indicator_def get_prop_def)

lemma body_indicator_ids_eq:
  "body_indicator_ids (AnalysisBody a) = map (\<lambda>i. get_prop i ''id'') (body_indicators (AnalysisBody a))"
  by (simp add: body_indicator_ids_def body_indicators_def split: option.splits json.splits)

lemma missing_type_id:
  assumes "ty \<in> set indicatorTypes"
  shows "Some (JStr ty) \<in> set (map (\<lambda>i. get_prop i ''id'')
           (map stringify inds @ map blank_indicator (missing_types inds)))"
proof (cases "Some (JStr ty) \<in> set (map (\<lambda>i. get_prop i ''id'') inds)")
  case True
  then obtain i where i: "i \<in> set inds" "get_prop i ''id'' = Some (JStr ty)" by auto
  then have "get_prop (stringify i) ''id'' = Some (JStr ty)" by (simp add: get_prop_stringify)
  then have "Some (JStr ty) \<in> (\<lambda>x. get_prop (stringify x) ''id'') ` set inds"
    using i(1) by force
  then show ?thesis by simp
next
  case False
  then have "ty \<in> set (missing_types inds)"
    using assms by (simp add: missing_types_def)
  then have "Some (JStr ty) \<in> (\<lambda>x. get_prop (blank_indicator x) ''id'') ` set (missing_types inds)"
    by (force simp: blank_indicator_id)
  then show ?thesis by simp
qed

lemma ai_branch_200D:
  assumes "status (ai_branch parse gw) = 200"
  shows "\<exists>content a. gw = Completion (Some (JStr content)) \<and> content \<noteq> []
           \<and> ensure_indicators (decode parse content) = Some a
           \<and> ai_branch parse gw = \<lparr>status = 200, body = AnalysisBody (stringify a)\<rparr>"
proof (cases gw)
  case (Throws msg)
  then show ?thesis using assms by (simp add: ai_branch_def)
next
  case (HttpError st)
  then show ?thesis using assms by (simp add: ai_branch_def split: if_splits)
next
  case (Completion c)
  show ?thesis
  proof (cases "falsy c")
    case True
    then show ?thesis using assms Completion by (simp add: ai_branch_def)
  next
    case False
    then obtain v where c: "c = Some v" by (cases c) auto
    show ?thesis
    proof (cases v)
      case (JStr content)
      then have ne: "content \<noteq> []" using False c by simp
      show ?thesis using assms Completion c JStr ne False
        by (cases "ensure_indicators (decode parse content)") (simp_all add: ai_branch_def)
    qed (use assms Completion c False in \<open>simp_all add: ai_branch_def\<close>)
  qed
qed

lemma ai_branch_content:
  assumes "content \<noteq> []"
  shows "ai_branch parse (Completion (Some (JStr content))) =
           (case ensure_indicators (decode parse content) of
              None \<Rightarrow> \<lparr>status = 500, body = RuntimeErrorBody\<rparr>
            | Some an \<Rightarrow> \<lparr>status = 200, body = AnalysisBody (stringify an)\<rparr>)"
  using assms by (simp add: ai_branch_def)

lemma decode_fails:
  assumes "\<forall>jsonStr. extract_json content = Some jsonStr \<longrightarrow> parse jsonStr = None"
  shows "decode parse content = neutral_default"
  using assms by (auto simp: decode_def split: option.splits)

lemma decode_succeeds:
  assumes "extract_json content = Some jsonStr" and "parse jsonStr = Some a"
  shows "decode parse content = a"
  using assms by (simp add: decode_def)

lemma ensure_indicators_neutral: "ensure_indicators neutral_default = Some neutral_result"
  by (simp add: ensure_indicators_def neutral_default_def neutral_result_def)

lemma ai_branch_fallback:
  assumes "\<forall>jsonStr. extract_json content = Some jsonStr \<longrightarrow> parse jsonStr = None"
    and "content \<noteq> []"
  shows "ai_branch parse (Completion (Some (JStr content))) =
           \<lparr>status = 200, body = AnalysisBody neutral_result\<rparr>"
  using assms(2)
  by (simp add: ai_branch_content decode_fails [OF assms(1)] ensure_indicators_neutral
      stringify_neutral_result)

lemma neutral_result_fields:
  "body_riskLevel (AnalysisBody neutral_result) = Some (JStr ''medium'')"
  "body_riskScore (AnalysisBody neutral_result) = Some (JNum 50)"
  "body_indicator_ids (AnalysisBody neutral_result) = map (\<lambda>ty. Some (JStr ty)) indicatorTypes"
  "body_indicators (AnalysisBody neutral_result) = map blank_indicator indicatorTypes"
  by (simp_all add: neutral_result_def body_riskLevel_def body_riskScore_def
      body_indicator_ids_def body_indicators_def get_prop_def blank_indicator_def comp_def)

lemma ai_branch_passes_through:
  assumes "extract_json content = Some jsonStr" and "parse jsonStr = Some a"
    and "status (ai_branch parse (Completion (Some (JStr content)))) = 200"
  shows "body_riskLevel (body (ai_branch parse (Completion (Some (JStr content)))))
           = map_option stringify (get_prop a ''riskLevel'')
       \<and> body_riskScore (body (ai_branch parse (Completion (Some (JStr content)))))
           = map_option stringify (get_prop a ''riskScore'')
       \<and> (\<exists>inds. get_prop a ''indicators'' = Some (JArr inds)
            \<and> body_indicators (body (ai_branch parse (Completion (Some (JStr content)))))
                = map stringify inds @ map blank_indicator (missing_types inds))"
proof -
  from ai_branch_200D [OF assms(3)] obtain a' where
    e: "ensure_indicators (decode parse content) = Some a'"
    and r: "ai_branch parse (Completion (Some (JStr content)))
              = \<lparr>status = 200, body = AnalysisBody (stringify a')\<rparr>"
    by auto
  have d: "decode parse content = a" using assms(1,2) by (rule decode_succeeds)
  have "get_prop a' ''riskLevel'' = get_prop a ''riskLevel''"
    using e [unfolded d] by (rule ensure_indicators_other_props) simp
  moreover have "get_prop a' ''riskScore'' = get_prop a ''riskScore''"
    using e [unfolded d] by (rule ensure_indicators_other_props) simp
  moreover note ensure_indicators_indicators [OF e [unfolded d]]
  ultimately show ?thesis
    by (simp add: r body_riskLevel_def body_riskScore_def get_prop_stringify)
qed

text \<open>The extraction never throws: a fence that occurs splits the content in two pieces at least.\<close>

lemma split_from_nonempty: "split_from sep piece s \<noteq> []"
  by (induction sep piece s rule: split_from.induct) simp_all

lemma split_from_pieces:
  "sep \<noteq> [] \<Longrightarrow> str_includes s sep \<Longrightarrow> 2 \<le> length (split_from sep piece s)"
proof (induction s arbitrary: piece)
  case Nil
  then show ?case by simp
next
  case (Cons c cs)
  show ?case
  proof (cases "prefix sep (c # cs)")
    case True
    have "split_from sep [] (drop (length sep - 1) cs) \<noteq> []"
      by (rule split_from_nonempty)
    then have "1 \<le> length (split_from sep [] (drop (length sep - 1) cs))"
      by (simp add: Suc_le_eq)
    then show ?thesis using True by simp
  next
    case False
    then show ?thesis using Cons by simp
  qed
qed

lemma nth_opt_Some: "n < length xs \<Longrightarrow> \<exists>x. nth_opt xs n = Some x"
  by (induction xs n rule: nth_opt.induct) simp_all

lemma split_js_first: "\<exists>x. nth_opt (split_js s sep) 0 = Some x"
  using split_from_nonempty [of sep "[]" s]
  by (intro nth_opt_Some) (simp add: split_js_def)

lemma fenced_total:
  assumes "sep \<noteq> []" and "str_includes content sep"
  shows "\<exists>jsonStr. fenced content sep = Some jsonStr"
proof -
  have "1 < length (split_js content sep)"
    using split_from_pieces [OF assms, of "[]"] by (simp add: split_js_def)
  then obtain part where p: "nth_opt (split_js content sep) 1 = Some part"
    using nth_opt_Some by blast
  obtain inner where "nth_opt (split_js part ''```'') 0 = Some inner"
    using split_js_first by blast
  then show ?thesis using p by (simp add: fenced_def)
qed

lemma extract_json_total: "\<exists>jsonStr. extract_json content = Some jsonStr"
  using fenced_total [of "''```json''" content] fenced_total [of "''```''" content]
  by (auto simp: extract_json_def)

subsection \<open>The handler\<close>

lemma trim_spaces: "list_all is_space s \<Longrightarrow> trim s = []"
proof -
  assume "list_all is_space s"
  then have d0: "dropWhile is_space s = []" by (metis dropWhile_eq_Nil_conv list_all_iff)
  show ?thesis unfolding trim_def d0 by simp
qed

lemma serve_rule_path:
  assumes "req_method req \<noteq> ''OPTIONS''" and "req_json req = Some (JObj fs)"
    and "map_of fs ''transcript'' = Some (JStr s)" and "trim s \<noteq> []"
    and "k = None \<or> k = Some []"
  shows "serve k parse gw req = \<lparr>status = 200, body = RuleBody (rule_based_branch (normalize s))\<rparr>"
proof -
  have "s \<noteq> []" using assms(4) by (auto simp: trim_def)
  then show ?thesis using assms by (auto simp: serve_def get_prop_def)
qed

lemma serve_ai_path:
  assumes "req_method req \<noteq> ''OPTIONS''" and "req_json req = Some (JObj fs)"
    and "map_of fs ''transcript'' = Some (JStr s)" and "trim s \<noteq> []"
    and "k = Some key" and "key \<noteq> []"
  shows "serve k parse gw req = ai_branch parse gw"
proof -
  have "s \<noteq> []" using assms(4) by (auto simp: trim_def)
  then show ?thesis using assms by (auto simp: serve_def get_prop_def)
qed

text \<open>Facts for the examples.\<close>

lemma serve_post:
  assumes "trim s \<noteq> []" and "key \<noteq> []"
  shows "serve (Some key) parse gw (post s) = ai_branch parse gw"
  by (rule serve_ai_path [where fs = "[(''transcript'', JStr s)]" and s = s and key = key])
     (use assms in \<open>simp_all add: post_def\<close>)

lemma trim_hello: "trim ''hello'' = ''hello''"
  by (simp add: trim_def is_space_def)

lemma extract_json_plain:
  "\<not> str_includes content ''```'' \<Longrightarrow> extract_json content = Some content"
proof -
  assume a: "\<not> str_includes content ''```''"
  have "sublist ''```'' ''```json''" by (simp add: sublist_def) (metis append_Nil)
  then have "\<not> str_includes content ''```json''"
    using a unfolding str_includes_sublist by (meson sublist_order.order_trans)
  then show ?thesis using a by (simp add: extract_json_def)
qed

subsection \<open>Traces of the scheduler\<close>

lemma dispatches_append: "dispatches (l @ l') = dispatches l @ dispatches l'"
  by (induction l rule: dispatches.induct) simp_all

lemma previous_length_append:
  "previous_length n (l @ l') = previous_length (previous_length n l) l'"
  by (induction n l rule: previous_length.induct) simp_all

lemma guarded_append:
  "guarded n (l @ l') = (guarded n l \<and> guarded (previous_length n l) l')"
  by (induction n l rule: guarded.induct) auto

lemma length_trim_le: "length (trim s) \<le> length s"
proof -
  have "length (dropWhile is_space (rev (dropWhile is_space s))) \<le> length (rev (dropWhile is_space s))"
    by (rule length_dropWhile_le)
  also have "\<dots> \<le> length s" by (simp add: length_dropWhile_le)
  finally show ?thesis by (simp add: trim_def)
qed

text \<open>What each function of the hook does to the trace and to the last-analyzed length.\<close>

lemma runIntervalCheck_effect:
  "trace (runIntervalCheck g language h) =
     trace h @ (if 15 \<le> length (transcriptRef h)
                   \<and> lastAnalyzedLengthRef h < length (transcriptRef h)
                then [Dispatched ByInterval (transcriptRef h)] else [])
   \<and> lastAnalyzedLengthRef (runIntervalCheck g language h) =
       (if 15 \<le> length (transcriptRef h) \<and> lastAnalyzedLengthRef h < length (transcriptRef h)
        then length (transcriptRef h) else lastAnalyzedLengthRef h)"
  by (simp add: runIntervalCheck_def Let_def ANALYZE_THRESHOLD_def analyzeTranscript_def)

lemma debounceExpiry_effect:
  "trace (debounceExpiry g language h) =
     trace h @ (if lastAnalyzedLengthRef h < length (transcriptRef h)
                then [Dispatched ByDebounce (transcriptRef h)] else [])
   \<and> lastAnalyzedLengthRef (debounceExpiry g language h) =
       (if lastAnalyzedLengthRef h < length (transcriptRef h)
        then length (transcriptRef h) else lastAnalyzedLengthRef h)"
  by (simp add: debounceExpiry_def Let_def analyzeTranscript_def)

lemma stopAnalysis_effect:
  "trace (stopAnalysis g language h) =
     trace h @ (if 15 \<le> length (transcriptRef h)
                then [Dispatched ByStop (transcriptRef h)] else [SessionEnd])
   \<and> lastAnalyzedLengthRef (stopAnalysis g language h) =
       (if 15 \<le> length (transcriptRef h) then lastAnalyzedLengthRef h else 0)"
  by (simp add: stopAnalysis_def stopTail_def Let_def analyzeTranscript_def)

lemma stopResume_effect:
  "trace (stopResume h) = trace h @ [SessionEnd] \<and> lastAnalyzedLengthRef (stopResume h) = 0"
  by (simp add: stopResume_def stopTail_def)

lemma startAnalysis_effect:
  "trace (startAnalysis g language init h) = trace h @ [SessionStart]
   \<and> lastAnalyzedLengthRef (startAnalysis g language init h) = 0"
  by (simp add: startAnalysis_def)

lemma updateTranscript_effect:
  "trace (updateTranscript s h) = trace h
   \<and> lastAnalyzedLengthRef (updateTranscript s h) = lastAnalyzedLengthRef h"
  by (simp add: updateTranscript_def Let_def)

text \<open>
  An update made after \<open>stopAnalysis()\<close> and before its continuation is wiped by the
  continuation: the debounce it armed finds an empty transcript and dispatches nothing.
\<close>

lemma update_before_stop_resumes:
  "dispatches (trace (run (\<lambda>lvl l. []) ''en''
      [StartAnalysis [], UpdateTranscript ''share otp now!!!'', StopAnalysis,
       UpdateTranscript ''share your otp now'', StopResume, DebounceExpiry] initial_hook))
     = [''share otp now!!!'']
   \<and> transcriptRef (run (\<lambda>lvl l. []) ''en''
      [StartAnalysis [], UpdateTranscript ''share otp now!!!'', StopAnalysis,
       UpdateTranscript ''share your otp now'', StopResume, DebounceExpiry] initial_hook) = []"
  by code_simp

text \<open>
  Between two events the last-analyzed length is the length that the trace accounts for, and
  every dispatch made so far met the condition of its trigger.
\<close>

lemma guarded_step:
  assumes "guarded 0 (trace h)" and "previous_length 0 (trace h) = lastAnalyzedLengthRef h"
  shows "guarded 0 (trace (step g language e h))
       \<and> previous_length 0 (trace (step g language e h))
           = lastAnalyzedLengthRef (step g language e h)"
proof (cases e)
  case (StartAnalysis init)
  then show ?thesis using assms
    by (simp add: step_def startAnalysis_effect guarded_append previous_length_append)
next
  case (UpdateTranscript s)
  then show ?thesis using assms by (simp add: step_def updateTranscript_effect)
next
  case FirstCheck
  then show ?thesis using assms
    by (simp add: step_def runIntervalCheck_effect guarded_append previous_length_append)
next
  case IntervalTick
  then show ?thesis using assms
    by (simp add: step_def runIntervalCheck_effect guarded_append previous_length_append)
next
  case DebounceExpiry
  then show ?thesis using assms
    by (simp add: step_def debounceExpiry_effect guarded_append previous_length_append)
next
  case StopAnalysis
  then show ?thesis using assms
    by (simp add: step_def stopAnalysis_effect guarded_append previous_length_append)
next
  case StopResume
  then show ?thesis using assms
    by (simp add: step_def stopResume_effect guarded_append previous_length_append)
qed

lemma guarded_run:
  assumes "guarded 0 (trace h)" and "previous_length 0 (trace h) = lastAnalyzedLengthRef h"
  shows "guarded 0 (trace (run g language es h))
       \<and> previous_length 0 (trace (run g language es h))
           = lastAnalyzedLengthRef (run g language es h)"
  using assms
proof (induction es arbitrary: h)
  case Nil
  then show ?case by simp
next
  case (Cons e es)
  from guarded_step [OF Cons.prems, of g language e]
  show ?case by (simp add: Cons.IH)
qed

section \<open>The claims\<close>

subsection \<open>The range of the risk score\<close>

text \<open>
  Claim C1, as amended. On the rule-based path of the edge function, in the client rule
  engine and on the neutral fallback taken when the AI content fails to decode, the risk
  score lies between 0 and 100 (the fallback's is 50). On the AI path the score is not
  clamped: a 200 response carries the \<open>riskScore\<close> of the decoded value as
  \<open>JSON.stringify\<close> prints it, a finite number unchanged whatever its size, a number that is
  not finite as \<open>null\<close>.
\<close>

theorem riskScore_range:
  "0 \<le> riskScore (rule_based_branch t) \<and> riskScore (rule_based_branch t) \<le> 100
   \<and> 0 \<le> c_riskScore (ruleBasedScamAnalysis g transcript language)
   \<and> c_riskScore (ruleBasedScamAnalysis g transcript language) \<le> 100
   \<and> ((\<forall>jsonStr. extract_json content = Some jsonStr \<longrightarrow> parse jsonStr = None)
        \<and> content \<noteq> [] \<longrightarrow>
        status (ai_branch parse (Completion (Some (JStr content)))) = 200
        \<and> body_riskScore (body (ai_branch parse (Completion (Some (JStr content)))))
            = Some (JNum 50))
   \<and> (extract_json content = Some jsonStr \<and> parse jsonStr = Some a
        \<and> status (ai_branch parse (Completion (Some (JStr content)))) = 200 \<longrightarrow>
        body_riskScore (body (ai_branch parse (Completion (Some (JStr content)))))
          = map_option stringify (get_prop a ''riskScore'')
        \<and> (get_prop a ''riskScore'' = Some (JNum x) \<longrightarrow>
             body_riskScore (body (ai_branch parse (Completion (Some (JStr content)))))
               = Some (JNum x))
        \<and> (get_prop a ''riskScore'' = Some (JInfinity neg) \<longrightarrow>
             body_riskScore (body (ai_branch parse (Completion (Some (JStr content)))))
               = Some JNull))"
  using rule_based_branch_range [of t] client_range [of g transcript language]
    ai_branch_fallback [of content parse] ai_branch_passes_through [of content jsonStr parse a]
  by (auto simp: neutral_result_fields)

text \<open>
  The AI cases: a content that does not decode, an answer with the score 20, and an answer
  whose score \<open>1e400\<close> decodes to \<open>Infinity\<close>.
\<close>

theorem riskScore_range_witness:
  "extract_json ''garbage'' = Some ''garbage''
   \<and> parses_to ''{\"riskScore\":20,\"indicators\":[]}''
        (JObj [(''riskScore'', JNum 20), (''indicators'', JArr [])]) ''garbage'' = None
   \<and> body_riskScore (body (ai_branch
        (parses_to ''{\"riskScore\":20,\"indicators\":[]}''
           (JObj [(''riskScore'', JNum 20), (''indicators'', JArr [])]))
        (Completion (Some (JStr ''garbage''))))) = Some (JNum 50)
   \<and> extract_json ''{\"riskScore\":20,\"indicators\":[]}''
        = Some ''{\"riskScore\":20,\"indicators\":[]}''
   \<and> status (ai_branch
        (parses_to ''{\"riskScore\":20,\"indicators\":[]}''
           (JObj [(''riskScore'', JNum 20), (''indicators'', JArr [])]))
        (Completion (Some (JStr ''{\"riskScore\":20,\"indicators\":[]}'')))) = 200
   \<and> body_riskScore (body (ai_branch
        (parses_to ''{\"riskScore\":20,\"indicators\":[]}''
           (JObj [(''riskScore'', JNum 20), (''indicators'', JArr [])]))
        (Completion (Some (JStr ''{\"riskScore\":20,\"indicators\":[]}''))))) = Some (JNum 20)
   \<and> status (ai_branch
        (parses_to ''{\"riskScore\":1e400,\"indicators\":[]}''
           (JObj [(''riskScore'', JInfinity False), (''indicators'', JArr [])]))
        (Completion (Some (JStr ''{\"riskScore\":1e400,\"indicators\":[]}'')))) = 200
   \<and> body_riskScore (body (ai_branch
        (parses_to ''{\"riskScore\":1e400,\"indicators\":[]}''
           (JObj [(''riskScore'', JInfinity False), (''indicators'', JArr [])]))
        (Completion (Some (JStr ''{\"riskScore\":1e400,\"indicators\":[]}''))))) = Some JNull"
proof -
  let ?c = "''{\"riskScore\":20,\"indicators\":[]}''"
  let ?v = "JObj [(''riskScore'', JNum 20), (''indicators'', JArr [])]"
  let ?p = "parses_to ?c ?v"
  let ?ci = "''{\"riskScore\":1e400,\"indicators\":[]}''"
  let ?vi = "JObj [(''riskScore'', JInfinity False), (''indicators'', JArr [])]"
  let ?pi = "parses_to ?ci ?vi"
  have g: "extract_json ''garbage'' = Some ''garbage''" by (rule extract_json_plain) simp
  have e: "extract_json ?c = Some ?c" by (rule extract_json_plain) simp
  have ei: "extract_json ?ci = Some ?ci" by (rule extract_json_plain) simp
  have pg: "?p ''garbage'' = None" by (simp add: parses_to_def)
  have pe: "?p ?c = Some ?v" by (simp add: parses_to_def)
  have pi: "?pi ?ci = Some ?vi" by (simp add: parses_to_def)
  have s: "status (ai_branch ?p (Completion (Some (JStr ?c)))) = 200"
    by (simp add: ai_branch_def decode_def e pe ensure_indicators_def)
  have si: "status (ai_branch ?pi (Completion (Some (JStr ?ci)))) = 200"
    by (simp add: ai_branch_def decode_def ei pi ensure_indicators_def)
  have h: "\<forall>jsonStr. extract_json ''garbage'' = Some jsonStr \<longrightarrow> ?p jsonStr = None"
    using g pg by simp
  have 1: "body_riskScore (body (ai_branch ?p (Completion (Some (JStr ''garbage''))))) = Some (JNum 50)"
    using h riskScore_range [of "[]" "\<lambda>l g. []" "[]" "[]" "''garbage''" ?p "''zz''" JNull 0 False]
    by simp
  have 2: "body_riskScore (body (ai_branch ?p (Completion (Some (JStr ?c))))) = Some (JNum 20)"
    using e pe s riskScore_range [of "[]" "\<lambda>l g. []" "[]" "[]" ?c ?p ?c ?v 20 False]
    by (simp add: get_prop_def)
  have 3: "body_riskScore (body (ai_branch ?pi (Completion (Some (JStr ?ci))))) = Some JNull"
    using ei pi si riskScore_range [of "[]" "\<lambda>l g. []" "[]" "[]" ?ci ?pi ?ci ?vi 0 False]
    by (simp add: get_prop_def)
  show ?thesis using g e pg s si 1 2 3 by simp
qed

text \<open>
  The claim as first stated fails on the AI path: an AI answer with \<open>riskScore\<close> 150 is
  returned with status 200 and that score.
\<close>

theorem ai_riskScore_counterexample:
  "status (serve (Some ''key'')
      (parses_to ''{\"riskLevel\":\"low\",\"riskScore\":150,\"indicators\":[]}''
         (JObj [(''riskLevel'', JStr ''low''), (''riskScore'', JNum 150), (''indicators'', JArr [])]))
      (Completion (Some (JStr ''{\"riskLevel\":\"low\",\"riskScore\":150,\"indicators\":[]}'')))
      (post ''hello'')) = 200
   \<and> body_riskScore (body (serve (Some ''key'')
      (parses_to ''{\"riskLevel\":\"low\",\"riskScore\":150,\"indicators\":[]}''
         (JObj [(''riskLevel'', JStr ''low''), (''riskScore'', JNum 150), (''indicators'', JArr [])]))
      (Completion (Some (JStr ''{\"riskLevel\":\"low\",\"riskScore\":150,\"indicators\":[]}'')))
      (post ''hello''))) = Some (JNum 150)
   \<and> \<not> (150 :: real) \<le> 100"
proof -
  let ?c = "''{\"riskLevel\":\"low\",\"riskScore\":150,\"indicators\":[]}''"
  let ?v = "JObj [(''riskLevel'', JStr ''low''), (''riskScore'', JNum 150), (''indicators'', JArr [])]"
  have e: "extract_json ?c = Some ?c" by (rule extract_json_plain) simp
  have d: "decode (parses_to ?c ?v) ?c = ?v" by (simp add: decode_def e parses_to_def)
  have s: "serve (Some ''key'') (parses_to ?c ?v) (Completion (Some (JStr ?c))) (post ''hello'')
           = ai_branch (parses_to ?c ?v) (Completion (Some (JStr ?c)))"
    by (rule serve_post) (simp_all add: trim_hello)
  show ?thesis
    unfolding s
    by (simp add: ai_branch_content d ensure_indicators_def body_riskScore_def get_prop_def)
qed

subsection \<open>The indicators\<close>

lemma indicatorTypes_distinct: "length indicatorTypes = 7 \<and> distinct indicatorTypes"
  by (simp add: indicatorTypes_def)

text \<open>
  Claim C2, as amended. There are 7 canonical ids, all different. The rule-based path of the
  edge function returns one indicator per canonical id, in the canonical order; the client
  rule engine returns 7 indicators with 7 different ids, the canonical ones; the neutral
  fallback is backfilled to one blank indicator per canonical id. On the AI path a 200
  response carries the indicators of the decoded value, all of them and in their order, as
  \<open>JSON.stringify\<close> prints them, followed by one blank indicator for each canonical id that
  none of them has, in the canonical order: duplicates and other entries are kept, and every
  canonical id occurs at least once.
\<close>

theorem indicators_canonical:
  "length indicatorTypes = 7 \<and> distinct indicatorTypes
   \<and> map ind_id (indicators (rule_based_branch t)) = indicatorTypes
   \<and> length (c_ids (c_indicators (ruleBasedScamAnalysis g transcript language))) = 7
   \<and> distinct (c_ids (c_indicators (ruleBasedScamAnalysis g transcript language)))
   \<and> set (c_ids (c_indicators (ruleBasedScamAnalysis g transcript language)))
       = set (map Some indicatorTypes)
   \<and> ((\<forall>jsonStr. extract_json content = Some jsonStr \<longrightarrow> parse jsonStr = None)
        \<and> content \<noteq> [] \<longrightarrow>
        status (ai_branch parse (Completion (Some (JStr content)))) = 200
        \<and> body_indicators (body (ai_branch parse (Completion (Some (JStr content)))))
            = map blank_indicator indicatorTypes
        \<and> body_indicator_ids (body (ai_branch parse (Completion (Some (JStr content)))))
            = map (\<lambda>ty. Some (JStr ty)) indicatorTypes)
   \<and> (extract_json content = Some jsonStr \<and> parse jsonStr = Some a
        \<and> status (ai_branch parse (Completion (Some (JStr content)))) = 200 \<longrightarrow>
        (\<exists>inds. get_prop a ''indicators'' = Some (JArr inds)
           \<and> body_indicators (body (ai_branch parse (Completion (Some (JStr content)))))
               = map stringify inds
                 @ map blank_indicator
                     (filter (\<lambda>ty. Some (JStr ty) \<notin> set (map (\<lambda>i. get_prop i ''id'') inds))
                        indicatorTypes)))
   \<and> (status (ai_branch parse gw) = 200 \<and> ty \<in> set indicatorTypes \<longrightarrow>
        Some (JStr ty) \<in> set (body_indicator_ids (body (ai_branch parse gw))))"
proof -
  have 1: "length indicatorTypes = 7 \<and> distinct indicatorTypes"
    by (rule indicatorTypes_distinct)
  have 2: "map ind_id (indicators (rule_based_branch t)) = indicatorTypes"
    by (rule rule_based_branch_ids)
  have 3: "length (c_ids (c_indicators (ruleBasedScamAnalysis g transcript language))) = 7
     \<and> distinct (c_ids (c_indicators (ruleBasedScamAnalysis g transcript language)))
     \<and> set (c_ids (c_indicators (ruleBasedScamAnalysis g transcript language)))
       = set (map Some indicatorTypes)"
    unfolding client_ids by (auto simp: indicatorTypes_def)
  have 4: "(\<forall>jsonStr. extract_json content = Some jsonStr \<longrightarrow> parse jsonStr = None)
        \<and> content \<noteq> [] \<longrightarrow>
        status (ai_branch parse (Completion (Some (JStr content)))) = 200
        \<and> body_indicators (body (ai_branch parse (Completion (Some (JStr content)))))
            = map blank_indicator indicatorTypes
        \<and> body_indicator_ids (body (ai_branch parse (Completion (Some (JStr content)))))
            = map (\<lambda>ty. Some (JStr ty)) indicatorTypes"
    using ai_branch_fallback [of content parse] by (auto simp: neutral_result_fields)
  have 5: "extract_json content = Some jsonStr \<and> parse jsonStr = Some a
        \<and> status (ai_branch parse (Completion (Some (JStr content)))) = 200 \<longrightarrow>
        (\<exists>inds. get_prop a ''indicators'' = Some (JArr inds)
           \<and> body_indicators (body (ai_branch parse (Completion (Some (JStr content)))))
               = map stringify inds
                 @ map blank_indicator
                     (filter (\<lambda>ty. Some (JStr ty) \<notin> set (map (\<lambda>i. get_prop i ''id'') inds))
                        indicatorTypes))"
    using ai_branch_passes_through [of content jsonStr parse a]
    unfolding missing_types_def by blast
  have 6: "status (ai_branch parse gw) = 200 \<and> ty \<in> set indicatorTypes \<longrightarrow>
        Some (JStr ty) \<in> set (body_indicator_ids (body (ai_branch parse gw)))"
  proof
    assume h: "status (ai_branch parse gw) = 200 \<and> ty \<in> set indicatorTypes"
    then obtain content a where e: "ensure_indicators (decode parse content) = Some a"
      and r: "ai_branch parse gw = \<lparr>status = 200, body = AnalysisBody (stringify a)\<rparr>"
      using ai_branch_200D [of parse gw] by blast
    from ensure_indicators_indicators [OF e] obtain inds where
      i: "body_indicators (AnalysisBody (stringify a))
         = map stringify inds @ map blank_indicator (missing_types inds)"
      by blast
    have "Some (JStr ty) \<in> set (map (\<lambda>i. get_prop i ''id'')
           (map stringify inds @ map blank_indicator (missing_types inds)))"
      using h by (intro missing_type_id) simp
    then have "Some (JStr ty) \<in> set (body_indicator_ids (AnalysisBody (stringify a)))"
      by (simp only: body_indicator_ids_eq i)
    then show "Some (JStr ty) \<in> set (body_indicator_ids (body (ai_branch parse gw)))"
      by (simp add: r)
  qed
  from 1 2 3 4 5 6 show ?thesis by blast
qed

text \<open>
  The fallback at a content that does not decode, and the backfill at an answer that lists
  \<open>emotional\<close> alone: the entry is kept and the six other ids are appended.
\<close>

theorem indicators_canonical_witness:
  "extract_json ''garbage'' = Some ''garbage''
   \<and> parses_to ''{\"indicators\":[{\"id\":\"emotional\"}]}''
        (JObj [(''indicators'', JArr [JObj [(''id'', JStr ''emotional'')]])]) ''garbage'' = None
   \<and> body_indicators (body (ai_branch
        (parses_to ''{\"indicators\":[{\"id\":\"emotional\"}]}''
           (JObj [(''indicators'', JArr [JObj [(''id'', JStr ''emotional'')]])]))
        (Completion (Some (JStr ''garbage'')))))
      = map blank_indicator indicatorTypes
   \<and> extract_json ''{\"indicators\":[{\"id\":\"emotional\"}]}''
        = Some ''{\"indicators\":[{\"id\":\"emotional\"}]}''
   \<and> status (ai_branch
        (parses_to ''{\"indicators\":[{\"id\":\"emotional\"}]}''
           (JObj [(''indicators'', JArr [JObj [(''id'', JStr ''emotional'')]])]))
        (Completion (Some (JStr ''{\"indicators\":[{\"id\":\"emotional\"}]}'')))) = 200
   \<and> body_indicators (body (ai_branch
        (parses_to ''{\"indicators\":[{\"id\":\"emotional\"}]}''
           (JObj [(''indicators'', JArr [JObj [(''id'', JStr ''emotional'')]])]))
        (Completion (Some (JStr ''{\"indicators\":[{\"id\":\"emotional\"}]}'')))))
      = [JObj [(''id'', JStr ''emotional'')], blank_indicator ''impersonation'',
         blank_indicator ''urgency'', blank_indicator ''authority'',
         blank_indicator ''otp_request'', blank_indicator ''money_request'',
         blank_indicator ''voice_pattern'']
   \<and> ''urgency'' \<in> set indicatorTypes
   \<and> Some (JStr ''urgency'') \<in> set (body_indicator_ids (body (ai_branch
        (parses_to ''{\"indicators\":[{\"id\":\"emotional\"}]}''
           (JObj [(''indicators'', JArr [JObj [(''id'', JStr ''emotional'')]])]))
        (Completion (Some (JStr ''{\"indicators\":[{\"id\":\"emotional\"}]}''))))))"
proof -
  let ?c = "''{\"indicators\":[{\"id\":\"emotional\"}]}''"
  let ?v = "JObj [(''indicators'', JArr [JObj [(''id'', JStr ''emotional'')]])]"
  let ?p = "parses_to ?c ?v"
  have g: "extract_json ''garbage'' = Some ''garbage''" by (rule extract_json_plain) simp
  have e: "extract_json ?c = Some ?c" by (rule extract_json_plain) simp
  have pg: "?p ''garbage'' = None" by (simp add: parses_to_def)
  have pe: "?p ?c = Some ?v" by (simp add: parses_to_def)
  have s: "status (ai_branch ?p (Completion (Some (JStr ?c)))) = 200"
    by (simp add: ai_branch_def decode_def e pe ensure_indicators_def get_prop_def)
  have u: "''urgency'' \<in> set indicatorTypes" by (simp add: indicatorTypes_def)
  have h: "\<forall>jsonStr. extract_json ''garbage'' = Some jsonStr \<longrightarrow> ?p jsonStr = None"
    using g pg by simp
  have 1: "body_indicators (body (ai_branch ?p (Completion (Some (JStr ''garbage'')))))
      = map blank_indicator indicatorTypes"
    using h indicators_canonical [of "[]" "\<lambda>l g. []" "[]" "[]" "''garbage''" ?p "''zz''" JNull
        "Completion (Some (JStr ?c))" "''urgency''"]
    by simp
  have 2: "body_indicators (body (ai_branch ?p (Completion (Some (JStr ?c)))))
      = [JObj [(''id'', JStr ''emotional'')], blank_indicator ''impersonation'',
         blank_indicator ''urgency'', blank_indicator ''authority'',
         blank_indicator ''otp_request'', blank_indicator ''money_request'',
         blank_indicator ''voice_pattern'']"
    using e pe s indicators_canonical [of "[]" "\<lambda>l g. []" "[]" "[]" ?c ?p ?c ?v
        "Completion (Some (JStr ?c))" "''urgency''"]
    by (simp add: get_prop_def indicatorTypes_def)
  have 3: "Some (JStr ''urgency'') \<in> set (body_indicator_ids (body (ai_branch ?p
        (Completion (Some (JStr ?c))))))"
    using s u indicators_canonical [of "[]" "\<lambda>l g. []" "[]" "[]" "''garbage''" ?p "''zz''" JNull
        "Completion (Some (JStr ?c))" "''urgency''"]
    by blast
  show ?thesis using g pg e s u 1 2 3 by blast
qed

text \<open>
  The claim as first stated fails on the AI path: an answer that lists \<open>urgency\<close> twice comes
  back with 8 indicators, \<open>urgency\<close> twice among them.
\<close>

theorem ai_indicators_counterexample:
  "status (serve (Some ''key'')
      (parses_to ''{\"indicators\":[{\"id\":\"urgency\"},{\"id\":\"urgency\"}]}''
         (JObj [(''indicators'',
                 JArr [JObj [(''id'', JStr ''urgency'')], JObj [(''id'', JStr ''urgency'')]])]))
      (Completion (Some (JStr ''{\"indicators\":[{\"id\":\"urgency\"},{\"id\":\"urgency\"}]}'')))
      (post ''hello'')) = 200
   \<and> body_indicator_ids (body (serve (Some ''key'')
      (parses_to ''{\"indicators\":[{\"id\":\"urgency\"},{\"id\":\"urgency\"}]}''
         (JObj [(''indicators'',
                 JArr [JObj [(''id'', JStr ''urgency'')], JObj [(''id'', JStr ''urgency'')]])]))
      (Completion (Some (JStr ''{\"indicators\":[{\"id\":\"urgency\"},{\"id\":\"urgency\"}]}'')))
      (post ''hello'')))
     = [Some (JStr ''urgency''), Some (JStr ''urgency''), Some (JStr ''impersonation''),
        Some (JStr ''emotional''), Some (JStr ''authority''), Some (JStr ''otp_request''),
        Some (JStr ''money_request''), Some (JStr ''voice_pattern'')]"
proof -
  let ?c = "''{\"indicators\":[{\"id\":\"urgency\"},{\"id\":\"urgency\"}]}''"
  let ?v = "JObj [(''indicators'',
                 JArr [JObj [(''id'', JStr ''urgency'')], JObj [(''id'', JStr ''urgency'')]])]"
  have e: "extract_json ?c = Some ?c" by (rule extract_json_plain) simp
  have d: "decode (parses_to ?c ?v) ?c = ?v" by (simp add: decode_def e parses_to_def)
  have s: "serve (Some ''key'') (parses_to ?c ?v) (Completion (Some (JStr ?c))) (post ''hello'')
           = ai_branch (parses_to ?c ?v) (Completion (Some (JStr ?c)))"
    by (rule serve_post) (simp_all add: trim_hello)
  show ?thesis
    unfolding s
    by (simp add: ai_branch_content d ensure_indicators_def body_indicator_ids_def get_prop_def
        indicatorTypes_def blank_indicator_def)
qed

subsection \<open>The floor of a high risk\<close>

text \<open>
  Claim C3, as amended. On the rule-based path of the edge function and in the client rule
  engine a result of level high has a score of at least 75. The neutral fallback is of level
  medium with score 50. The AI path has no floor correction: a 200 response carries the
  \<open>riskLevel\<close> and the \<open>riskScore\<close> of the decoded value as \<open>JSON.stringify\<close> prints them,
  a level that is a string and a score that is a finite number unchanged, whatever they are.
\<close>

theorem high_floor:
  "(riskLevel (rule_based_branch t) = High \<longrightarrow> riskScore (rule_based_branch t) \<ge> 75)
   \<and> (c_riskLevel (ruleBasedScamAnalysis g transcript language) = High \<longrightarrow>
        c_riskScore (ruleBasedScamAnalysis g transcript language) \<ge> 75)
   \<and> ((\<forall>jsonStr. extract_json content = Some jsonStr \<longrightarrow> parse jsonStr = None)
        \<and> content \<noteq> [] \<longrightarrow>
        body_riskLevel (body (ai_branch parse (Completion (Some (JStr content)))))
            = Some (JStr ''medium'')
        \<and> body_riskScore (body (ai_branch parse (Completion (Some (JStr content)))))
            = Some (JNum 50))
   \<and> (extract_json content = Some jsonStr \<and> parse jsonStr = Some a
        \<and> status (ai_branch parse (Completion (Some (JStr content)))) = 200 \<longrightarrow>
        body_riskLevel (body (ai_branch parse (Completion (Some (JStr content)))))
          = map_option stringify (get_prop a ''riskLevel'')
        \<and> body_riskScore (body (ai_branch parse (Completion (Some (JStr content)))))
          = map_option stringify (get_prop a ''riskScore'')
        \<and> (get_prop a ''riskLevel'' = Some (JStr lvl) \<and> get_prop a ''riskScore'' = Some (JNum x)
             \<longrightarrow>
             body_riskLevel (body (ai_branch parse (Completion (Some (JStr content)))))
               = Some (JStr lvl)
             \<and> body_riskScore (body (ai_branch parse (Completion (Some (JStr content)))))
               = Some (JNum x)))"
proof -
  have 1: "riskLevel (rule_based_branch t) = High \<longrightarrow> riskScore (rule_based_branch t) \<ge> 75"
    by (simp add: rule_based_branch_level rule_based_branch_score band_High_iff)
  have 2: "c_riskLevel (ruleBasedScamAnalysis g transcript language) = High \<longrightarrow>
        c_riskScore (ruleBasedScamAnalysis g transcript language) \<ge> 75"
    by (simp add: client_level client_score band_High_iff)
  show ?thesis
    using 1 2 ai_branch_fallback [of content parse]
      ai_branch_passes_through [of content jsonStr parse a]
    by (auto simp: neutral_result_fields)
qed

text \<open>
  A transcript that both rule engines rate high, and the two AI cases, at a content that
  does not decode and at an answer of level high with score 90.
\<close>

theorem high_floor_witness:
  "riskLevel (rule_based_branch (normalize ''share your otp with the bank'')) = High
   \<and> riskScore (rule_based_branch (normalize ''share your otp with the bank'')) \<ge> 75
   \<and> c_riskLevel (ruleBasedScamAnalysis (\<lambda>lvl l. []) ''share your otp with the bank'' ''en'') = High
   \<and> c_riskScore (ruleBasedScamAnalysis (\<lambda>lvl l. []) ''share your otp with the bank'' ''en'') \<ge> 75
   \<and> extract_json ''garbage'' = Some ''garbage''
   \<and> parses_to ''{\"riskLevel\":\"high\",\"riskScore\":90,\"indicators\":[]}''
        (JObj [(''riskLevel'', JStr ''high''), (''riskScore'', JNum 90), (''indicators'', JArr [])])
        ''garbage'' = None
   \<and> body_riskLevel (body (ai_branch
        (parses_to ''{\"riskLevel\":\"high\",\"riskScore\":90,\"indicators\":[]}''
          (JObj [(''riskLevel'', JStr ''high''), (''riskScore'', JNum 90), (''indicators'', JArr [])]))
        (Completion (Some (JStr ''garbage''))))) = Some (JStr ''medium'')
   \<and> extract_json ''{\"riskLevel\":\"high\",\"riskScore\":90,\"indicators\":[]}''
        = Some ''{\"riskLevel\":\"high\",\"riskScore\":90,\"indicators\":[]}''
   \<and> status (ai_branch
        (parses_to ''{\"riskLevel\":\"high\",\"riskScore\":90,\"indicators\":[]}''
          (JObj [(''riskLevel'', JStr ''high''), (''riskScore'', JNum 90), (''indicators'', JArr [])]))
        (Completion (Some (JStr ''{\"riskLevel\":\"high\",\"riskScore\":90,\"indicators\":[]}''))))
      = 200
   \<and> body_riskLevel (body (ai_branch
        (parses_to ''{\"riskLevel\":\"high\",\"riskScore\":90,\"indicators\":[]}''
          (JObj [(''riskLevel'', JStr ''high''), (''riskScore'', JNum 90), (''indicators'', JArr [])]))
        (Completion (Some (JStr ''{\"riskLevel\":\"high\",\"riskScore\":90,\"indicators\":[]}'')))))
      = Some (JStr ''high'')
   \<and> body_riskScore (body (ai_branch
        (parses_to ''{\"riskLevel\":\"high\",\"riskScore\":90,\"indicators\":[]}''
          (JObj [(''riskLevel'', JStr ''high''), (''riskScore'', JNum 90), (''indicators'', JArr [])]))
        (Completion (Some (JStr ''{\"riskLevel\":\"high\",\"riskScore\":90,\"indicators\":[]}'')))))
      = Some (JNum 90)"
proof -
  let ?c = "''{\"riskLevel\":\"high\",\"riskScore\":90,\"indicators\":[]}''"
  let ?v = "JObj [(''riskLevel'', JStr ''high''), (''riskScore'', JNum 90), (''indicators'', JArr [])]"
  let ?p = "parses_to ?c ?v"
  let ?t = "''share your otp with the bank''"
  have l1: "riskLevel (rule_based_branch (normalize ?t)) = High" by code_simp
  have l2: "c_riskLevel (ruleBasedScamAnalysis (\<lambda>lvl l. []) ?t ''en'') = High" by code_simp
  have g: "extract_json ''garbage'' = Some ''garbage''" by (rule extract_json_plain) simp
  have e: "extract_json ?c = Some ?c" by (rule extract_json_plain) simp
  have pg: "?p ''garbage'' = None" by (simp add: parses_to_def)
  have pe: "?p ?c = Some ?v" by (simp add: parses_to_def)
  have s: "status (ai_branch ?p (Completion (Some (JStr ?c)))) = 200"
    by (simp add: ai_branch_def decode_def e pe ensure_indicators_def)
  have h: "\<forall>jsonStr. extract_json ''garbage'' = Some jsonStr \<longrightarrow> ?p jsonStr = None"
    using g pg by simp
  have 1: "riskScore (rule_based_branch (normalize ?t)) \<ge> 75
      \<and> c_riskScore (ruleBasedScamAnalysis (\<lambda>lvl l. []) ?t ''en'') \<ge> 75
      \<and> body_riskLevel (body (ai_branch ?p (Completion (Some (JStr ''garbage'')))))
          = Some (JStr ''medium'')"
    using l1 l2 h
      high_floor [of "normalize ?t" "\<lambda>lvl l. []" ?t "''en''" "''garbage''" ?p "''zz''" JNull
        "[]" 0]
    by simp
  have 2: "body_riskLevel (body (ai_branch ?p (Completion (Some (JStr ?c))))) = Some (JStr ''high'')
      \<and> body_riskScore (body (ai_branch ?p (Completion (Some (JStr ?c))))) = Some (JNum 90)"
    using e pe s high_floor [of "[]" "\<lambda>lvl l. []" "[]" "[]" ?c ?p ?c ?v "''high''" 90]
    by (simp add: get_prop_def)
  show ?thesis using l1 l2 g pg e s 1 2 by simp
qed

text \<open>
  The claim as first stated fails on the AI path: an AI answer of level high with score 10
  is returned with status 200 as it is.
\<close>

theorem ai_high_floor_counterexample:
  "status (serve (Some ''key'')
      (parses_to ''{\"riskLevel\":\"high\",\"riskScore\":10,\"indicators\":[]}''
         (JObj [(''riskLevel'', JStr ''high''), (''riskScore'', JNum 10), (''indicators'', JArr [])]))
      (Completion (Some (JStr ''{\"riskLevel\":\"high\",\"riskScore\":10,\"indicators\":[]}'')))
      (post ''hello'')) = 200
   \<and> body_riskLevel (body (serve (Some ''key'')
      (parses_to ''{\"riskLevel\":\"high\",\"riskScore\":10,\"indicators\":[]}''
         (JObj [(''riskLevel'', JStr ''high''), (''riskScore'', JNum 10), (''indicators'', JArr [])]))
      (Completion (Some (JStr ''{\"riskLevel\":\"high\",\"riskScore\":10,\"indicators\":[]}'')))
      (post ''hello''))) = Some (JStr ''high'')
   \<and> body_riskScore (body (serve (Some ''key'')
      (parses_to ''{\"riskLevel\":\"high\",\"riskScore\":10,\"indicators\":[]}''
         (JObj [(''riskLevel'', JStr ''high''), (''riskScore'', JNum 10), (''indicators'', JArr [])]))
      (Completion (Some (JStr ''{\"riskLevel\":\"high\",\"riskScore\":10,\"indicators\":[]}'')))
      (post ''hello''))) = Some (JNum 10)
   \<and> \<not> (10 :: real) \<ge> 75"
proof -
  let ?c = "''{\"riskLevel\":\"high\",\"riskScore\":10,\"indicators\":[]}''"
  let ?v = "JObj [(''riskLevel'', JStr ''high''), (''riskScore'', JNum 10), (''indicators'', JArr [])]"
  have e: "extract_json ?c = Some ?c" by (rule extract_json_plain) simp
  have d: "decode (parses_to ?c ?v) ?c = ?v" by (simp add: decode_def e parses_to_def)
  have s: "serve (Some ''key'') (parses_to ?c ?v) (Completion (Some (JStr ?c))) (post ''hello'')
           = ai_branch (parses_to ?c ?v) (Completion (Some (JStr ?c)))"
    by (rule serve_post) (simp_all add: trim_hello)
  show ?thesis
    unfolding s
    by (simp add: ai_branch_content d ensure_indicators_def body_riskScore_def body_riskLevel_def
        get_prop_def)
qed

subsection \<open>Malformed AI output\<close>




text \<open>
  Outside the amended claim: when the decoded value has no array of indicators, the backfill
  throws outside the inner \<open>try\<close> and the endpoint answers 500.
\<close>

lemma indicators_not_array_500:
  "serve (Some ''key'')
      (parses_to ''{\"riskLevel\":\"low\",\"riskScore\":10,\"indicators\":\"none\"}''
         (JObj [(''riskLevel'', JStr ''low''), (''riskScore'', JNum 10),
                (''indicators'', JStr ''none'')]))
      (Completion (Some (JStr ''{\"riskLevel\":\"low\",\"riskScore\":10,\"indicators\":\"none\"}'')))
      (post ''hello'')
   = \<lparr>status = 500, body = RuntimeErrorBody\<rparr>"
proof -
  let ?c = "''{\"riskLevel\":\"low\",\"riskScore\":10,\"indicators\":\"none\"}''"
  let ?v = "JObj [(''riskLevel'', JStr ''low''), (''riskScore'', JNum 10),
                (''indicators'', JStr ''none'')]"
  have e: "extract_json ?c = Some ?c" by (rule extract_json_plain) simp
  have d: "decode (parses_to ?c ?v) ?c = ?v" by (simp add: decode_def e parses_to_def)
  have s: "serve (Some ''key'') (parses_to ?c ?v) (Completion (Some (JStr ?c))) (post ''hello'')
           = ai_branch (parses_to ?c ?v) (Completion (Some (JStr ?c)))"
    by (rule serve_post) (simp_all add: trim_hello)
  show ?thesis
    unfolding s by (simp add: ai_branch_content d ensure_indicators_def)
qed

subsection \<open>When a check dispatches\<close>

text \<open>
  Claim C6, as amended. An interval check (the warm-up timeout or the recurring interval)
  dispatches exactly when the transcript has at least 15 characters and is strictly longer
  than the last-analyzed length. The expiry of the debounce, which an update arms when the
  trimmed text has at least 10 characters, dispatches exactly when the transcript is
  strictly longer than the last-analyzed length: it has no minimum of 15. A check that
  dispatches sets the last-analyzed length to the length of the transcript it dispatches,
  and \<open>startAnalysis\<close> and the end of \<open>stopAnalysis\<close> set it to 0. \<open>stopAnalysis\<close> runs one
  final dispatch exactly when the transcript has at least 15 characters, whatever the
  last-analyzed length is, and reaches its end behind the \<open>await\<close> of that dispatch. So in every run, every dispatch of an interval check is of 15
  characters or more, and every dispatch of a trigger check is of a transcript strictly
  longer than the one the trigger check before it dispatched in the same session. In
  particular a transcript that grew from 0 to fewer than 15 characters is not dispatched by
  the interval checks, but is dispatched by the debounce expiry when it has 10 characters
  or more once trimmed; and once it has grown to 15 characters or more, the next check
  dispatches it, be it the interval check or the expiry of the debounce that the update
  armed, and the check after that one does not dispatch it again.
\<close>

theorem dispatch_conditions:
  "dispatches (trace (runIntervalCheck g language h))
     = dispatches (trace h)
       @ (if 15 \<le> length (transcriptRef h) \<and> lastAnalyzedLengthRef h < length (transcriptRef h)
          then [transcriptRef h] else [])
   \<and> lastAnalyzedLengthRef (runIntervalCheck g language h)
     = (if 15 \<le> length (transcriptRef h) \<and> lastAnalyzedLengthRef h < length (transcriptRef h)
        then length (transcriptRef h) else lastAnalyzedLengthRef h)
   \<and> dispatches (trace (debounceExpiry g language h))
     = dispatches (trace h)
       @ (if lastAnalyzedLengthRef h < length (transcriptRef h) then [transcriptRef h] else [])
   \<and> lastAnalyzedLengthRef (debounceExpiry g language h)
     = (if lastAnalyzedLengthRef h < length (transcriptRef h)
        then length (transcriptRef h) else lastAnalyzedLengthRef h)
   \<and> debounceRef (updateTranscript s h) = (debounceRef h \<or> 10 \<le> length (trim s))
   \<and> lastAnalyzedLengthRef (startAnalysis g language s h) = 0
   \<and> lastAnalyzedLengthRef (stopResume h) = 0
   \<and> dispatches (trace (stopAnalysis g language h))
     = dispatches (trace h) @ (if 15 \<le> length (transcriptRef h) then [transcriptRef h] else [])
   \<and> lastAnalyzedLengthRef (stopAnalysis g language h)
     = (if 15 \<le> length (transcriptRef h) then lastAnalyzedLengthRef h else 0)
   \<and> guarded 0 (trace (run g language es initial_hook))
   \<and> (length t < 15 \<longrightarrow>
        dispatches (trace (run g language
          [StartAnalysis [], UpdateTranscript t, FirstCheck, IntervalTick] initial_hook)) = [])
   \<and> (length t < 15 \<and> 15 \<le> length t' \<longrightarrow>
        dispatches (trace (run g language
          [StartAnalysis [], UpdateTranscript t, IntervalTick, UpdateTranscript t', IntervalTick,
           IntervalTick] initial_hook)) = [t'])
   \<and> (length t < 15 \<and> 15 \<le> length t' \<and> 10 \<le> length (trim t') \<longrightarrow>
        dispatches (trace (run g language
          [StartAnalysis [], UpdateTranscript t, IntervalTick, UpdateTranscript t',
           DebounceExpiry, IntervalTick] initial_hook)) = [t'])
   \<and> (10 \<le> length (trim t) \<longrightarrow>
        dispatches (trace (run g language
          [StartAnalysis [], UpdateTranscript t, DebounceExpiry] initial_hook)) = [t])"
proof -
  have 1: "dispatches (trace (runIntervalCheck g language h))
     = dispatches (trace h)
       @ (if 15 \<le> length (transcriptRef h) \<and> lastAnalyzedLengthRef h < length (transcriptRef h)
          then [transcriptRef h] else [])
   \<and> lastAnalyzedLengthRef (runIntervalCheck g language h)
     = (if 15 \<le> length (transcriptRef h) \<and> lastAnalyzedLengthRef h < length (transcriptRef h)
        then length (transcriptRef h) else lastAnalyzedLengthRef h)"
    by (simp add: runIntervalCheck_effect dispatches_append)
  have 2: "dispatches (trace (debounceExpiry g language h))
     = dispatches (trace h)
       @ (if lastAnalyzedLengthRef h < length (transcriptRef h) then [transcriptRef h] else [])
   \<and> lastAnalyzedLengthRef (debounceExpiry g language h)
     = (if lastAnalyzedLengthRef h < length (transcriptRef h)
        then length (transcriptRef h) else lastAnalyzedLengthRef h)"
    by (simp add: debounceExpiry_effect dispatches_append)
  have 3: "debounceRef (updateTranscript s h) = (debounceRef h \<or> 10 \<le> length (trim s))
   \<and> lastAnalyzedLengthRef (startAnalysis g language s h) = 0
   \<and> lastAnalyzedLengthRef (stopResume h) = 0"
    by (simp add: updateTranscript_def Let_def startAnalysis_effect stopResume_effect)
  have 4: "dispatches (trace (stopAnalysis g language h))
     = dispatches (trace h) @ (if 15 \<le> length (transcriptRef h) then [transcriptRef h] else [])
   \<and> lastAnalyzedLengthRef (stopAnalysis g language h)
     = (if 15 \<le> length (transcriptRef h) then lastAnalyzedLengthRef h else 0)"
    by (simp add: stopAnalysis_effect dispatches_append)
  have 5: "guarded 0 (trace (run g language es initial_hook))"
    using guarded_run [of initial_hook g language es] by (simp add: initial_hook_def)
  have 6: "length t < 15 \<longrightarrow>
        dispatches (trace (run g language
          [StartAnalysis [], UpdateTranscript t, FirstCheck, IntervalTick] initial_hook)) = []"
    by (simp add: step_def startAnalysis_def updateTranscript_def runIntervalCheck_def
        initial_hook_def ANALYZE_THRESHOLD_def Let_def)
  have 7: "length t < 15 \<and> 15 \<le> length t' \<longrightarrow>
        dispatches (trace (run g language
          [StartAnalysis [], UpdateTranscript t, IntervalTick, UpdateTranscript t', IntervalTick,
           IntervalTick] initial_hook)) = [t']"
    by (auto simp: step_def startAnalysis_def updateTranscript_def runIntervalCheck_def
        analyzeTranscript_def initial_hook_def ANALYZE_THRESHOLD_def Let_def)
  have 8: "length t < 15 \<and> 15 \<le> length t' \<and> 10 \<le> length (trim t') \<longrightarrow>
        dispatches (trace (run g language
          [StartAnalysis [], UpdateTranscript t, IntervalTick, UpdateTranscript t',
           DebounceExpiry, IntervalTick] initial_hook)) = [t']"
    by (auto simp: step_def startAnalysis_def updateTranscript_def runIntervalCheck_def
        debounceExpiry_def analyzeTranscript_def initial_hook_def ANALYZE_THRESHOLD_def Let_def)
  have 9: "10 \<le> length (trim t) \<longrightarrow>
        dispatches (trace (run g language
          [StartAnalysis [], UpdateTranscript t, DebounceExpiry] initial_hook)) = [t]"
  proof
    assume a: "10 \<le> length (trim t)"
    then have "0 < length t" using length_trim_le [of t] by linarith
    then show "dispatches (trace (run g language
          [StartAnalysis [], UpdateTranscript t, DebounceExpiry] initial_hook)) = [t]"
      using a
      by (simp add: step_def startAnalysis_def updateTranscript_def debounceExpiry_def
          analyzeTranscript_def initial_hook_def Let_def)
  qed
  from 1 2 3 4 5 6 7 8 9 show ?thesis by blast
qed

text \<open>
  The scenario of the claim, with a transcript of 14 characters growing to 16: the interval
  checks pass over the 14 characters; the 16 are dispatched once, by the interval check or
  by the debounce expiry, whichever comes first; the debounce expiry dispatches the 14.
\<close>

theorem dispatch_conditions_witness:
  "length ''share otp now!'' = 14 \<and> length ''share otp now!!!'' = 16
   \<and> length (trim ''share otp now!'') = 14 \<and> length (trim ''share otp now!!!'') = 16
   \<and> dispatches (trace (run (\<lambda>lvl l. []) ''en''
        [StartAnalysis [], UpdateTranscript ''share otp now!'', FirstCheck, IntervalTick]
        initial_hook)) = []
   \<and> dispatches (trace (run (\<lambda>lvl l. []) ''en''
        [StartAnalysis [], UpdateTranscript ''share otp now!'', IntervalTick,
         UpdateTranscript ''share otp now!!!'', IntervalTick, IntervalTick] initial_hook))
      = [''share otp now!!!'']
   \<and> dispatches (trace (run (\<lambda>lvl l. []) ''en''
        [StartAnalysis [], UpdateTranscript ''share otp now!'', IntervalTick,
         UpdateTranscript ''share otp now!!!'', DebounceExpiry, IntervalTick] initial_hook))
      = [''share otp now!!!'']
   \<and> dispatches (trace (run (\<lambda>lvl l. []) ''en''
        [StartAnalysis [], UpdateTranscript ''share otp now!'', DebounceExpiry] initial_hook))
      = [''share otp now!'']"
proof -
  have l: "length ''share otp now!'' = 14 \<and> length ''share otp now!!!'' = 16" by simp
  have t: "length (trim ''share otp now!'') = 14 \<and> length (trim ''share otp now!!!'') = 16"
    by (simp add: trim_def is_space_def)
  show ?thesis
    using l t
      dispatch_conditions [of "\<lambda>lvl l. []" "''en''" initial_hook "[]" "[]" "''share otp now!''"
        "''share otp now!!!''"]
    by simp
qed

text \<open>
  The claim as first stated fails on the debounce path: after an update to a transcript of
  14 characters, the expiry of the debounce dispatches it.
\<close>

theorem debounce_below_threshold_counterexample:
  "dispatches (trace (run (\<lambda>lvl l. []) ''en''
      [StartAnalysis [], UpdateTranscript ''share otp now!'', DebounceExpiry] initial_hook))
     = [''share otp now!'']
   \<and> length ''share otp now!'' = 14
   \<and> \<not> ANALYZE_THRESHOLD \<le> length ''share otp now!''"
proof -
  have "dispatches (trace (run (\<lambda>lvl l. []) ''en''
      [StartAnalysis [], UpdateTranscript ''share otp now!'', DebounceExpiry] initial_hook))
     = [''share otp now!'']"
    by code_simp
  then show ?thesis by (simp add: ANALYZE_THRESHOLD_def)
qed

subsection \<open>The level is the band of the raw score\<close>

text \<open>
  Claim C7. For every transcript, the risk level of the rule-based scorer is the band of the
  raw score, the score before the floor correction: high from 50, medium from 25 to 49, low
  below 25. This holds for the edge function and for the client engine, and it makes no
  difference whether the raw score is read before or after \<open>Math.min(100, riskScore)\<close>.
\<close>

theorem rule_level_is_band_of_raw:
  "riskLevel (rule_based_branch t) =
     (if edge_raw t \<ge> 50 then High else if edge_raw t \<ge> 25 then Medium else Low)
   \<and> riskLevel (rule_based_branch t) =
     (if edge_sum t \<ge> 50 then High else if edge_sum t \<ge> 25 then Medium else Low)
   \<and> c_riskLevel (ruleBasedScamAnalysis g transcript language) =
     (if client_raw transcript \<ge> 50 then High
      else if client_raw transcript \<ge> 25 then Medium else Low)
   \<and> c_riskLevel (ruleBasedScamAnalysis g transcript language) =
     (if client_sum transcript \<ge> 50 then High
      else if client_sum transcript \<ge> 25 then Medium else Low)"
  by (simp add: rule_based_branch_level client_level band_def edge_raw_def client_raw_def)

subsection \<open>Requests without a transcript\<close>

text \<open>
  Claim C8, as amended. A request other than the CORS preflight whose body is a JSON value
  other than \<open>null\<close> and whose \<open>transcript\<close> is missing, empty or made of white space only is
  answered with status 400 and the body \<open>{error: "No transcript provided"}\<close>, whatever the
  API key, the parser and the gateway are: no analysis takes part in it. A request whose
  body is not JSON, or is \<open>null\<close>, has no transcript either; reading it throws, and the
  request is answered with status 500 and the message of the exception. An \<open>OPTIONS\<close>
  request is answered with status 200 and no body, whatever it carries.
\<close>

theorem no_transcript_400:
  "(req_method req \<noteq> ''OPTIONS'' \<and> req_json req = Some b \<and> b \<noteq> JNull
      \<and> (get_prop b ''transcript'' = None
          \<or> (\<exists>s. get_prop b ''transcript'' = Some (JStr s) \<and> list_all is_space s))
      \<longrightarrow> serve k parse gw req
            = \<lparr>status = 400, body = ErrorBody ''No transcript provided''\<rparr>)
   \<and> (req_method req \<noteq> ''OPTIONS'' \<and> (req_json req = None \<or> req_json req = Some JNull)
      \<longrightarrow> serve k parse gw req = \<lparr>status = 500, body = RuntimeErrorBody\<rparr>)
   \<and> (req_method req = ''OPTIONS''
      \<longrightarrow> serve k parse gw req = \<lparr>status = 200, body = NoBody\<rparr>)"
proof -
  have 1: "serve k parse gw req = \<lparr>status = 400, body = ErrorBody ''No transcript provided''\<rparr>"
    if a: "req_method req \<noteq> ''OPTIONS''" "req_json req = Some b" "b \<noteq> JNull"
      and t: "get_prop b ''transcript'' = None
          \<or> (\<exists>s. get_prop b ''transcript'' = Some (JStr s) \<and> list_all is_space s)"
  proof -
    have "falsy (get_prop b ''transcript'')
          \<or> (\<exists>s. get_prop b ''transcript'' = Some (JStr s) \<and> trim s = [])"
      using t by (auto simp: trim_spaces)
    then show ?thesis
      using a by (cases b) (auto simp: serve_def Let_def)
  qed
  have 2: "serve k parse gw req = \<lparr>status = 500, body = RuntimeErrorBody\<rparr>"
    if "req_method req \<noteq> ''OPTIONS''" "req_json req = None \<or> req_json req = Some JNull"
    using that by (auto simp: serve_def)
  have 3: "serve k parse gw req = \<lparr>status = 200, body = NoBody\<rparr>"
    if "req_method req = ''OPTIONS''"
    using that by (simp add: serve_def)
  from 1 2 3 show ?thesis by blast
qed

text \<open>
  A body without the field, the empty string and a string of blanks; then a body that is
  not JSON, and the preflight.
\<close>

theorem no_transcript_400_witness:
  "serve None (\<lambda>s. None) (Throws ''unused'')
      \<lparr>req_method = ''POST'', req_json = Some (JObj [(''language'', JStr ''hi'')])\<rparr>
     = \<lparr>status = 400, body = ErrorBody ''No transcript provided''\<rparr>
   \<and> serve (Some ''key'') (\<lambda>s. None) (Throws ''unused'') (post '''')
     = \<lparr>status = 400, body = ErrorBody ''No transcript provided''\<rparr>
   \<and> serve (Some ''key'') (\<lambda>s. None) (Throws ''unused'') (post ''   '')
     = \<lparr>status = 400, body = ErrorBody ''No transcript provided''\<rparr>
   \<and> serve (Some ''key'') (\<lambda>s. None) (Throws ''unused'')
        \<lparr>req_method = ''PUT'', req_json = None\<rparr>
     = \<lparr>status = 500, body = RuntimeErrorBody\<rparr>
   \<and> serve (Some ''key'') (\<lambda>s. None) (Throws ''unused'')
        \<lparr>req_method = ''OPTIONS'', req_json = None\<rparr>
     = \<lparr>status = 200, body = NoBody\<rparr>"
proof -
  let ?k = "Some ''key''" and ?p = "\<lambda>s::string. None :: json option" and ?g = "Throws ''unused''"
  have 1: "serve None ?p ?g
      \<lparr>req_method = ''POST'', req_json = Some (JObj [(''language'', JStr ''hi'')])\<rparr>
     = \<lparr>status = 400, body = ErrorBody ''No transcript provided''\<rparr>"
    using no_transcript_400 [of "\<lparr>req_method = ''POST'',
        req_json = Some (JObj [(''language'', JStr ''hi'')])\<rparr>"
        "JObj [(''language'', JStr ''hi'')]" None ?p ?g]
    by (simp add: get_prop_def)
  have 2: "serve ?k ?p ?g (post '''')
     = \<lparr>status = 400, body = ErrorBody ''No transcript provided''\<rparr>"
    using no_transcript_400 [of "post ''''" "JObj [(''transcript'', JStr '''')]" ?k ?p ?g]
    by (simp add: get_prop_def post_def)
  have 3: "serve ?k ?p ?g (post ''   '')
     = \<lparr>status = 400, body = ErrorBody ''No transcript provided''\<rparr>"
    using no_transcript_400 [of "post ''   ''" "JObj [(''transcript'', JStr ''   '')]" ?k ?p ?g]
    by (simp add: get_prop_def post_def is_space_def)
  have 4: "serve ?k ?p ?g \<lparr>req_method = ''PUT'', req_json = None\<rparr>
     = \<lparr>status = 500, body = RuntimeErrorBody\<rparr>"
    using no_transcript_400 [of "\<lparr>req_method = ''PUT'', req_json = None\<rparr>" JNull ?k ?p ?g]
    by simp
  have 5: "serve ?k ?p ?g \<lparr>req_method = ''OPTIONS'', req_json = None\<rparr>
     = \<lparr>status = 200, body = NoBody\<rparr>"
    using no_transcript_400 [of "\<lparr>req_method = ''OPTIONS'', req_json = None\<rparr>" JNull ?k ?p ?g]
    by simp
  from 1 2 3 4 5 show ?thesis by simp
qed

text \<open>
  The claim as first stated fails for a request that has no \<open>transcript\<close> because its body
  is not JSON or is \<open>null\<close>: a POST of either kind is answered 500, not 400. It fails for
  the preflight too: an \<open>OPTIONS\<close> request with an empty transcript is answered 200.
\<close>

theorem no_body_counterexample:
  "serve None (\<lambda>s. None) (Throws ''unused'') \<lparr>req_method = ''POST'', req_json = None\<rparr>
     = \<lparr>status = 500, body = RuntimeErrorBody\<rparr>
   \<and> serve None (\<lambda>s. None) (Throws ''unused'') \<lparr>req_method = ''POST'', req_json = Some JNull\<rparr>
     = \<lparr>status = 500, body = RuntimeErrorBody\<rparr>
   \<and> serve None (\<lambda>s. None) (Throws ''unused'')
        \<lparr>req_method = ''OPTIONS'', req_json = Some (JObj [(''transcript'', JStr '''')])\<rparr>
     = \<lparr>status = 200, body = NoBody\<rparr>
   \<and> (500 :: nat) \<noteq> 400 \<and> (200 :: nat) \<noteq> 400"
  by (simp add: serve_def)

subsection \<open>The two scoring tables\<close>

text \<open>The five rules that both tables have carry the same ids and weights, in the same order.\<close>

lemma shared_rule_weights:
  "map (\<lambda>p. (rule_id p, weight p)) edge_patterns
     = map (\<lambda>p. (rule_id p, weight p)) (take 5 client_patterns)"
  by (simp add: edge_patterns_def client_patterns_def)

text \<open>
  Claim C9. The two rule-based scorers are not equal as functions from transcripts to the
  pair of risk score and set of detected indicators: on the transcript \<open>court help\<close> the
  edge function finds nothing and scores 0, while the client engine detects \<open>authority\<close> and
  \<open>emotional\<close> and scores 35. The tables differ in the keywords of the same id (the client
  lists \<open>court\<close> under \<open>authority\<close>, the edge function does not) and in the weight of an
  indicator: \<open>emotional\<close> has a rule of weight 15 in the client table and no rule in the edge
  table, where it is never detected.
\<close>

theorem scoring_tables_disagree:
  "(\<exists>t. (riskScore (rule_based_branch (normalize t)),
          set (map Some (detected_ids (indicators (rule_based_branch (normalize t))))))
       \<noteq> (c_riskScore (ruleBasedScamAnalysis g t language),
          set (c_detected_ids (c_indicators (ruleBasedScamAnalysis g t language)))))
   \<and> riskScore (rule_based_branch (normalize ''court help'')) = 0
   \<and> detected_ids (indicators (rule_based_branch (normalize ''court help''))) = []
   \<and> c_riskScore (ruleBasedScamAnalysis g ''court help'' language) = 35
   \<and> c_detected_ids (c_indicators (ruleBasedScamAnalysis g ''court help'' language))
       = [Some ''authority'', Some ''emotional'']
   \<and> map_option (\<lambda>p. ''court'' \<in> set (rule_keywords p))
        (find (\<lambda>p. rule_id p = ''authority'') edge_patterns) = Some False
   \<and> map_option (\<lambda>p. ''court'' \<in> set (rule_keywords p))
        (find (\<lambda>p. rule_id p = ''authority'') client_patterns) = Some True
   \<and> map_option weight (find (\<lambda>p. rule_id p = ''emotional'') edge_patterns) = None
   \<and> map_option weight (find (\<lambda>p. rule_id p = ''emotional'') client_patterns) = Some 15"
proof -
  have e1: "riskScore (rule_based_branch (normalize ''court help'')) = 0" by code_simp
  have e2: "detected_ids (indicators (rule_based_branch (normalize ''court help''))) = []"
    by code_simp
  have "client_sum ''court help'' = 35" by code_simp
  then have c1: "c_riskScore (ruleBasedScamAnalysis g ''court help'' language) = 35"
    by (simp add: client_score client_raw_def)
  have "map (\<lambda>p. map_option sp_id (find (\<lambda>sp. sp_id sp = rule_id p) scamPatterns))
       (filter (\<lambda>p. some_keyword (normalize ''court help'') (rule_keywords p)) client_patterns)
       = [Some ''authority'', Some ''emotional'']"
    by code_simp
  then have c2: "c_detected_ids (c_indicators (ruleBasedScamAnalysis g ''court help'' language))
       = [Some ''authority'', Some ''emotional'']"
    by (simp only: client_detected_ids_eq)
  have d: "(riskScore (rule_based_branch (normalize ''court help'')),
          set (map Some (detected_ids (indicators (rule_based_branch (normalize ''court help''))))))
       \<noteq> (c_riskScore (ruleBasedScamAnalysis g ''court help'' language),
          set (c_detected_ids (c_indicators (ruleBasedScamAnalysis g ''court help'' language))))"
    by (simp only: e1 c1) simp
  have k: "map_option (\<lambda>p. ''court'' \<in> set (rule_keywords p))
        (find (\<lambda>p. rule_id p = ''authority'') edge_patterns) = Some False
   \<and> map_option (\<lambda>p. ''court'' \<in> set (rule_keywords p))
        (find (\<lambda>p. rule_id p = ''authority'') client_patterns) = Some True
   \<and> map_option weight (find (\<lambda>p. rule_id p = ''emotional'') edge_patterns) = None
   \<and> map_option weight (find (\<lambda>p. rule_id p = ''emotional'') client_patterns) = Some 15"
    by (simp add: edge_patterns_def client_patterns_def)
  from d have "\<exists>t. (riskScore (rule_based_branch (normalize t)),
          set (map Some (detected_ids (indicators (rule_based_branch (normalize t))))))
       \<noteq> (c_riskScore (ruleBasedScamAnalysis g t language),
          set (c_detected_ids (c_indicators (ruleBasedScamAnalysis g t language))))"
    by (rule exI)
  then show ?thesis using e1 e2 c1 c2 k by simp
qed

subsection \<open>Appending text never loses a match\<close>

text \<open>
  Claim C10. Both rule-based scorers are monotone under extension of the transcript: for
  every transcript \<open>t\<close> and every appended string \<open>s\<close>, each indicator detected for \<open>t\<close>
  is detected for \<open>t @ s\<close>, and the score before the clamp at 100 does not decrease. The
  reason is that the normalized \<open>t\<close> is a prefix of the normalized \<open>t @ s\<close>.
\<close>

theorem rule_scorers_monotone:
  "set (detected_ids (indicators (rule_based_branch (normalize t))))
     \<subseteq> set (detected_ids (indicators (rule_based_branch (normalize (t @ s)))))
   \<and> edge_sum (normalize t) \<le> edge_sum (normalize (t @ s))
   \<and> set (c_detected_ids (c_indicators (ruleBasedScamAnalysis g t language)))
     \<subseteq> set (c_detected_ids (c_indicators (ruleBasedScamAnalysis g (t @ s) language)))
   \<and> client_sum t \<le> client_sum (t @ s)"
proof -
  have inc: "\<And>kw. str_includes (normalize t) kw \<Longrightarrow> str_includes (normalize (t @ s)) kw"
    by (rule str_includes_extend)
  have "set (detected_ids (fst (edge_indicators (normalize t) indicatorTypes 0)))
        \<subseteq> set (detected_ids (fst (edge_indicators (normalize (t @ s)) indicatorTypes 0)))"
    using inc by (rule edge_detected_ids_mono)
  then have 1: "set (detected_ids (indicators (rule_based_branch (normalize t))))
     \<subseteq> set (detected_ids (indicators (rule_based_branch (normalize (t @ s)))))"
    by (simp add: rule_based_branch_def Let_def)
  have 2: "edge_sum (normalize t) \<le> edge_sum (normalize (t @ s))"
    unfolding edge_sum_def
    using edge_indicators_mono [of "normalize t" "normalize (t @ s)" 0 0 indicatorTypes, OF inc]
    by simp
  have 3: "set (c_detected_ids (c_indicators (ruleBasedScamAnalysis g t language)))
     \<subseteq> set (c_detected_ids (c_indicators (ruleBasedScamAnalysis g (t @ s) language)))"
    using inc by (rule client_detected_ids_mono)
  have 4: "client_sum t \<le> client_sum (t @ s)"
    using inc by (rule client_sum_mono)
  from 1 2 3 4 show ?thesis by blast
qed

theorem rule_scorers_monotone_witness:
  "edge_sum (normalize ''your b'') = 0 \<and> edge_sum (normalize (''your b'' @ ''ank otp'')) = 55
   \<and> edge_sum (normalize ''your b'') \<le> edge_sum (normalize (''your b'' @ ''ank otp''))
   \<and> client_sum ''your b'' \<le> client_sum (''your b'' @ ''ank otp'')"
proof -
  have a: "edge_sum (normalize ''your b'') = 0" by code_simp
  have b: "edge_sum (normalize (''your b'' @ ''ank otp'')) = 55" by code_simp
  show ?thesis
    using a b rule_scorers_monotone [of "''your b''" "''ank otp''"] by simp
qed

end
